theory Spec2Isabelle
  imports Complex_Main "HOL-Library.AList" "HOL-Library.Char_ord" "HOL-Library.List_Lexorder"
begin

section \<open>Values shared by the layer code\<close>

text \<open>
  Exceptions of the Python source become values.  \<open>Exception msg\<close> is a
  \<^verbatim>\<open>raise Exception(msg)\<close>; the others are raised by failed \<^verbatim>\<open>assert\<close>s,
  by indexing and by attribute access on \<^verbatim>\<open>None\<close>.
\<close>

datatype error =
    AssertionError
  | IndexError
  | KeyError
  | AttributeError
  | TypeError
  | ValueError
  | ZeroDivisionError
  | Exception string

text \<open>
  A tensor handle of the numeric engine is opaque to the layer code: the code only
  passes handles to engine functions and receives new handles.  A handle is therefore a
  symbolic term: \<open>Handle\<close> is a handle that comes from outside (an input placeholder, a
  variable), \<open>PyInt\<close> and \<open>PyFloat\<close> a Python number used where the engine expects a
  tensor (a float abstracted to a real), the named
  constructors are the integer operations the slice layer applies to length vectors, and
  \<open>TfOp f args\<close> is the result of the engine function \<open>f\<close> on \<open>args\<close>.
\<close>

datatype tensor =
    Handle string
  | PyInt int
  | PyFloat real
  | TfMaximum tensor tensor
  | TfMinimum tensor tensor
  | TfSub tensor tensor
  | TfFloorDiv tensor tensor
  | TfShapeAt tensor int
  | TfOp string "tensor list"

text \<open>The operations created so far, in creation order.\<close>

type_synonym graph = "tensor list"

definition build :: "tensor \<Rightarrow> graph \<Rightarrow> tensor \<times> graph" where
  "build t g = (t, g @ [t])"

text \<open>
  Python numbers as the regularisation code sees them: an \<^verbatim>\<open>int\<close>, a \<^verbatim>\<open>float\<close>
  (its value abstracted to a real; only the kind of the value decides a branch below) or a
  tensor.
\<close>

datatype pynum = PInt int | PFloat real | PTensor tensor

subsection \<open>Data (the tensor descriptor)\<close>

text \<open>
  The class \<^verbatim>\<open>Data\<close> is imported from \<^verbatim>\<open>TFUtil\<close>; the record has the attributes
  the layer code reads and writes.  A shape entry \<open>None\<close> is a dynamic axis.
  \<open>size_placeholder\<close> is the dictionary from axis to length vector, kept as an association
  list in insertion order; it is \<open>None\<close> until one is attached.
\<close>

record Data =
  name :: string
  shape :: "int option list"
  dim :: "int option"
  sparse :: bool
  batch_dim_axis :: "int option"
  time_dim_axis :: "int option"
  dtype :: string
  placeholder :: "tensor option"
  size_placeholder :: "(int \<times> tensor) list option"

record OutputWithActivation =
  x :: tensor
  act_func :: "string option"
  y :: tensor

subsection \<open>Losses\<close>

datatype loss_class = CrossEntropyLoss | GenericCELoss | CtcLoss

text \<open>
  A loss object after \<^verbatim>\<open>Loss.init\<close> (\<^verbatim>\<open>LayerBase._init_loss\<close> calls it before
  \<^verbatim>\<open>get_value\<close> and \<^verbatim>\<open>get_error\<close>).  \<open>target_sparse_labels\<close> is the attribute
  \<^verbatim>\<open>_target_sparse_labels\<close>.
\<close>

record Loss =
  class_name :: loss_class
  loss_output :: Data
  output_with_activation :: "OutputWithActivation option"
  output_seq_lens :: tensor
  loss_target :: Data
  target_seq_lens :: tensor
  target_collapse_repeated :: bool
  auto_clip_target_len :: bool
  target_sparse_labels :: "tensor option"

text \<open>
  What the layer code asks of the engine and of \<^verbatim>\<open>TFUtil\<close> about a tensor: the static
  shape of a handle (\<open>None\<close> when the rank is unknown) and the logits of an
  \<^verbatim>\<open>OutputWithActivation\<close>.  Both are parameters of the model.
\<close>

record tf_env =
  get_shape :: "tensor \<Rightarrow> int option list option"
  get_logits :: "OutputWithActivation \<Rightarrow> tensor option"

text \<open>\<^verbatim>\<open>Loss.get_auto_output_layer_dim\<close> and its override in \<^verbatim>\<open>CtcLoss\<close>.\<close>

fun get_auto_output_layer_dim :: "loss_class \<Rightarrow> int \<Rightarrow> int" where
  "get_auto_output_layer_dim CtcLoss target_dim = target_dim + 1"
| "get_auto_output_layer_dim _ target_dim = target_dim"


text \<open>
  \<^verbatim>\<open>self.reduce_func\<close> is \<^verbatim>\<open>tf.reduce_sum\<close>.
\<close>

definition reduce_func :: "tensor \<Rightarrow> graph \<Rightarrow> tensor \<times> graph" where
  "reduce_func t g = build (TfOp ''reduce_sum'' [t]) g"

text \<open>\<^verbatim>\<open>CtcLoss._get_target_sparse_labels\<close>: memoised in the loss object.\<close>

definition get_target_sparse_labels :: "Loss \<Rightarrow> graph \<Rightarrow> (error + tensor) \<times> Loss \<times> graph" where
  "get_target_sparse_labels self g =
     (case target_sparse_labels self of
        Some labels \<Rightarrow> (Inr labels, self, g)
      | None \<Rightarrow>
          (let (lens, g1) =
                 (if auto_clip_target_len self then
                    (let (a, ga) = build (TfSub (output_seq_lens self) (PyInt 1)) g;
                         (b, gb) = build (TfMaximum a (PyInt 0)) ga
                     in build (TfMinimum (target_seq_lens self) b) gb)
                  else (target_seq_lens self, g))
           in (case placeholder (loss_target self) of
                 None \<Rightarrow> (Inl TypeError, self, g1)
               | Some tp \<Rightarrow>
                   (let (labels, g2) =
                          build (TfOp (if target_collapse_repeated self
                                       then ''sparse_labels_collapse_repeated''
                                       else ''sparse_labels'') [tp, lens]) g1
                    in (Inr labels, self\<lparr>target_sparse_labels := Some labels\<rparr>, g2)))))"

text \<open>
  The logits both CTC methods start from: those of the pending activation when there is
  one, the logarithm of the output otherwise.
\<close>

definition ctc_logits :: "tf_env \<Rightarrow> Loss \<Rightarrow> graph \<Rightarrow> (error + tensor) \<times> graph" where
  "ctc_logits env self g =
     (let logits = (case output_with_activation self of
                      None \<Rightarrow> None
                    | Some owa \<Rightarrow> get_logits env owa)
      in (case logits of
            Some l \<Rightarrow> (Inr l, g)
          | None \<Rightarrow>
              (case placeholder (loss_output self) of
                 None \<Rightarrow> (Inl TypeError, g)
               | Some p \<Rightarrow> (let (l, g1) = build (TfOp ''log'' [p]) g in (Inr l, g1)))))"

text \<open>\<^verbatim>\<open>Data.is_time_major\<close> is not under src/; the two CTC methods only pass it on.\<close>

definition time_major_tag :: "Data \<Rightarrow> tensor" where
  "time_major_tag d = PyInt (if time_dim_axis d = Some 0 then 1 else 0)"

definition CtcLoss_get_value :: "tf_env \<Rightarrow> Loss \<Rightarrow> graph \<Rightarrow> (error + tensor) \<times> Loss \<times> graph" where
  "CtcLoss_get_value env self g =
     (if \<not> sparse (loss_target self) then
        (Inl (Exception ''CTC target expected to be sparse (symbols)''), self, g)
      else
        (case ctc_logits env self g of
           (Inl e, g1) \<Rightarrow> (Inl e, self, g1)
         | (Inr logits, g1) \<Rightarrow>
             (case get_shape env logits of
                None \<Rightarrow> (Inl AssertionError, self, g1)
              | Some dims \<Rightarrow>
                  if int (length dims) \<noteq> 3 then (Inl AssertionError, self, g1)
                  else if dims ! 2 \<noteq> map_option (\<lambda>d. d + 1) (dim (loss_target self))
                          \<or> dim (loss_target self) = None
                  then (Inl (if dim (loss_target self) = None then TypeError else AssertionError),
                        self, g1)
                  else
                    (case get_target_sparse_labels self g1 of
                       (Inl e, self2, g2) \<Rightarrow> (Inl e, self2, g2)
                     | (Inr labels, self2, g2) \<Rightarrow>
                         (let (loss, g3) =
                                build (TfOp ''ctc_loss''
                                         [logits, labels, output_seq_lens self,
                                          time_major_tag (loss_output self)]) g2;
                              (v, g4) = reduce_func loss g3
                          in (Inr v, self2, g4))))))"

definition CtcLoss_get_error :: "tf_env \<Rightarrow> Loss \<Rightarrow> graph \<Rightarrow> (error + tensor) \<times> Loss \<times> graph" where
  "CtcLoss_get_error env self g =
     (if \<not> sparse (loss_target self) then
        (Inl (Exception ''CTC target expected to be sparse (symbols)''), self, g)
      else
        (case ctc_logits env self g of
           (Inl e, g1) \<Rightarrow> (Inl e, self, g1)
         | (Inr logits0, g1) \<Rightarrow>
             (let (logits, g2) =
                    (if time_dim_axis (loss_output self) = Some 0 then (logits0, g1)
                     else build (TfOp ''transpose'' [logits0, PyInt 1, PyInt 0, PyInt 2]) g1);
                  (decoded, g3) =
                    build (TfOp ''ctc_greedy_decoder'' [logits, output_seq_lens self]) g2
              in (case get_target_sparse_labels self g3 of
                    (Inl e, self2, g4) \<Rightarrow> (Inl e, self2, g4)
                  | (Inr labels, self2, g4) \<Rightarrow>
                      (let (hyp, g5) = build (TfOp ''cast'' [decoded, labels]) g4;
                           (err, g6) = build (TfOp ''edit_distance'' [hyp, labels]) g5;
                           (v, g7) = reduce_func err g6
                       in (Inr v, self2, g7))))))"

subsection \<open>The recurrent layer's cells\<close>

text \<open>
  \<^verbatim>\<open>RecLayer.get_rnn_cell_class\<close> returns a class of one of three kinds;
  \<^verbatim>\<open>rnn_cell_class(n_hidden)\<close> instantiates it.  A cell object is the class it was made
  from and the width it was given.
\<close>

datatype cell_kind = RNNCell | FusedRNNCell | RecSeqCellOp | OtherClass

record rnn_cell_class =
  cell_name :: string
  kind :: cell_kind

record cell =
  cell_class :: rnn_cell_class
  n_hidden :: "int option"

text \<open>
  Lines 1149 to 1159 of \<^verbatim>\<open>RecLayer.__init__\<close>: the width is the output's \<open>dim\<close>, halved
  for a bidirectional layer after the assertion that it is even; then the forward cell
  and, when bidirectional, the backward cell are instantiated.  The second component is
  the list of all cell objects instantiated so far.
\<close>

definition RecLayer_make_cells ::
  "rnn_cell_class \<Rightarrow> int option \<Rightarrow> bool \<Rightarrow> cell list
     \<Rightarrow> (error + cell \<times> cell option) \<times> cell list" where
  "RecLayer_make_cells cls out_dim bidirectional made =
     (case (if bidirectional then
              (case out_dim of
                 None \<Rightarrow> Inl TypeError
               | Some n0 \<Rightarrow> if n0 mod 2 \<noteq> 0 then Inl AssertionError
                            else Inr (Some (n0 div 2)))
            else Inr out_dim) of
        Inl e \<Rightarrow> (Inl e, made)
      | Inr n \<Rightarrow>
          (let cell_fw = \<lparr>cell_class = cls, n_hidden = n\<rparr>;
               made1 = made @ [cell_fw]
           in if kind cls = OtherClass then (Inl AssertionError, made1)
              else if bidirectional then
                (let cell_bw = \<lparr>cell_class = cls, n_hidden = n\<rparr>
                 in (Inr (cell_fw, Some cell_bw), made1 @ [cell_bw]))
              else (Inr (cell_fw, None), made1)))"

section \<open>Layers\<close>

type_synonym addr = nat

text \<open>The layer classes of the module (those with a \<^verbatim>\<open>layer_class\<close> name).\<close>

datatype layer_class =
    SourceLayer | CopyLayer | ActivationLayer | BatchNormLayer | SliceLayer | LinearLayer
  | SoftmaxLayer | ConvLayer | PoolLayer | ReduceLayer | GetLastHiddenStateLayer
  | RnnCellLayer | RecLayer | FsaLayer | CombineLayer | SubnetworkLayer
  | FramewiseStatisticsLayer

text \<open>
  A layer object.  \<open>layer_id\<close> is the identity of the Python object (layers define
  neither \<^verbatim>\<open>__eq__\<close> nor \<^verbatim>\<open>__hash__\<close>, so a tuple of layers is compared by the
  identities), \<open>network\<close> the network object the layer belongs to, \<open>layer_output\<close> the address
  of its \<^verbatim>\<open>Data\<close> object.  \<open>is_output_layer_opt\<close> is the attribute
  \<^verbatim>\<open>_is_output_layer\<close>, \<open>layer_kind\<close> the class of the object and \<open>subnetwork\<close>
  the network object a subnetwork layer owns.
\<close>

record LayerBase =
  layer_id :: nat
  layer_name :: string
  network :: nat
  target :: "string option"
  loss :: "loss_class option"
  layer_output :: addr
  params :: "(string \<times> tensor) list"
  L2 :: "pynum option"
  is_output_layer_opt :: "bool option"
  spatial_smoothing :: pynum
  layer_kind :: layer_class
  recurrent :: bool
  subnetwork :: "nat option"

text \<open>Python truth of a \<^verbatim>\<open>str|None\<close>: \<^verbatim>\<open>None\<close> and the empty string are false.\<close>

definition truthy_str :: "string option \<Rightarrow> bool" where
  "truthy_str s = (case s of None \<Rightarrow> False | Some v \<Rightarrow> v \<noteq> [])"

definition is_output_layer :: "LayerBase \<Rightarrow> bool" where
  "is_output_layer self =
     (case is_output_layer_opt self of
        Some b \<Rightarrow> b
      | None \<Rightarrow>
          if truthy_str (target self) then True
          else if layer_name self = ''output'' then True
          else False)"

section \<open>Networks and the object store\<close>

text \<open>
  \<^verbatim>\<open>train_flag\<close> is \<^verbatim>\<open>True\<close>, \<^verbatim>\<open>False\<close> or a tensor evaluated when the graph runs.
\<close>

datatype train_flag = TrainTrue | TrainFalse | TrainTensor tensor

text \<open>
  The part of a network object the layer code uses.  A key of
  \<^verbatim>\<open>concat_sources_dropout_cache\<close> is the tuple of source layers (their identities) with
  the dropout rate; the value is the address of a \<^verbatim>\<open>Data\<close> object.  \<open>random_draws\<close>
  counts the calls of \<^verbatim>\<open>network.random.randint\<close>.
\<close>

record Network =
  train_flag :: train_flag
  concat_sources_dropout_cache :: "(nat list \<times> real) \<rightharpoonup> addr"
  random_draws :: nat
  default_target :: "string option"
  default_input :: "string option"
  extern_data :: "string \<rightharpoonup> addr"
  layers :: "string \<rightharpoonup> LayerBase"

text \<open>
  \<^verbatim>\<open>Data\<close> objects are mutable and shared, so they live in a store: \<open>heap\<close> gives the
  object at an address, \<open>next_addr\<close> is the first address not yet used.  \<open>networks\<close>
  holds the network objects and \<open>ops\<close> the operations built so far.
\<close>

record state =
  heap :: "addr \<Rightarrow> Data"
  next_addr :: addr
  networks :: "nat \<Rightarrow> Network"
  ops :: graph

definition alloc :: "Data \<Rightarrow> state \<Rightarrow> addr \<times> state" where
  "alloc d st =
     (next_addr st, st\<lparr>heap := (heap st)(next_addr st := d), next_addr := Suc (next_addr st)\<rparr>)"

text \<open>
  Modelled from the spec: \<^verbatim>\<open>Data.copy\<close> (\<^verbatim>\<open>TFUtil\<close> is not under src/).  Section 3 has
  consumers "derive a copy, never mutate a shared descriptor in place": the copy is a new
  descriptor object with the attributes of the original, the same tensor handle and a
  dynamic-length dictionary of its own.
\<close>

definition Data_copy :: "addr \<Rightarrow> state \<Rightarrow> addr \<times> state" where
  "Data_copy a st = alloc (heap st a) st"

text \<open>
  Methods of \<^verbatim>\<open>Data\<close> that the functions below call and that are not under src/; they
  are parameters of the model.  \<open>axis_excluding_batch b a\<close> is
  \<^verbatim>\<open>get_batch_axis_excluding_batch(a)\<close> on a descriptor whose batch axis is \<open>b\<close>;
  the property \<^verbatim>\<open>time_dim_axis_excluding_batch\<close> applies it to the time axis and is
  \<^verbatim>\<open>None\<close> without one.
\<close>

record data_methods =
  axis_excluding_batch :: "int option \<Rightarrow> int \<Rightarrow> int option"
  get_placeholder_with_specific_batch_dim_axis :: "Data \<Rightarrow> int option \<Rightarrow> tensor"
  non_dynamic_batch_shape :: "Data \<Rightarrow> int list"
  batch_shape :: "Data \<Rightarrow> int option list"
  batch_ndim :: "Data \<Rightarrow> int"
  get_axes_exclude_time_batch :: "Data \<Rightarrow> int list"
  get_dynamic_batch_axes :: "Data \<Rightarrow> int list"
  get_non_dynamic_axes :: "Data \<Rightarrow> int list"
  have_tim_axis :: "Data \<Rightarrow> bool"
  matches_dim_pattern :: "Data \<Rightarrow> Data \<Rightarrow> bool"

definition time_dim_axis_excluding_batch :: "data_methods \<Rightarrow> Data \<Rightarrow> int option" where
  "time_dim_axis_excluding_batch dm d =
     (case time_dim_axis d of
        None \<Rightarrow> None
      | Some t \<Rightarrow> axis_excluding_batch dm (batch_dim_axis d) t)"

subsection \<open>Concatenation of sources\<close>

text \<open>The loop of \<^verbatim>\<open>get_concat_sources_data_template\<close> over the sources' shapes.\<close>

fun template_dim :: "int option list list \<Rightarrow> int \<Rightarrow> error + int" where
  "template_dim [] acc = Inr acc"
| "template_dim (shp # rest) acc =
     (if shp = [] then Inl IndexError
      else (case last shp of
              None \<Rightarrow> Inl AssertionError
            | Some n \<Rightarrow> if n = 0 then Inl AssertionError else template_dim rest (acc + n)))"

definition get_concat_sources_data_template ::
  "LayerBase list \<Rightarrow> state \<Rightarrow> (error + addr) \<times> state" where
  "get_concat_sources_data_template src_layers st =
     (case src_layers of
        [] \<Rightarrow> (Inl AssertionError, st)
      | l0 # _ \<Rightarrow>
          (case template_dim (map (\<lambda>l. shape (heap st (layer_output l))) src_layers) 0 of
             Inl e \<Rightarrow> (Inl e, st)
           | Inr n \<Rightarrow>
               (let o0 = heap st (layer_output l0);
                    (data, st1) =
                      alloc \<lparr>name = ''concat_sources'', shape = butlast (shape o0) @ [Some n],
                             dim = Some n, sparse = False,
                             batch_dim_axis = batch_dim_axis o0,
                             time_dim_axis = time_dim_axis o0, dtype = dtype o0,
                             placeholder = None, size_placeholder = None\<rparr> st
                in (Inr data, st1))))"

text \<open>
  The assertions \<^verbatim>\<open>concat_sources\<close> makes on each source, in the order of the source;
  \<open>None\<close> when every source passes.
\<close>

fun check_sources :: "data_methods \<Rightarrow> tf_env \<Rightarrow> Data \<Rightarrow> Data list \<Rightarrow> error option" where
  "check_sources dm env data [] = None"
| "check_sources dm env data (d # ds) =
     (if sparse d then Some AssertionError
      else if dtype d \<noteq> dtype data then Some AssertionError
      else if time_dim_axis_excluding_batch dm d \<noteq> time_dim_axis_excluding_batch dm data
      then Some AssertionError
      else (case placeholder d of
              None \<Rightarrow> Some AttributeError
            | Some p \<Rightarrow>
                if map_option length (get_shape env p) \<noteq> Some (length (shape d) + 1)
                then Some AssertionError
                else if shape d = [] then Some AssertionError
                else if butlast (shape d) \<noteq> butlast (shape data) then Some AssertionError
                else if last (shape d) = None \<or> last (shape d) = Some 0 then Some AssertionError
                else check_sources dm env data ds))"

definition cache_store :: "nat \<Rightarrow> nat list \<times> real \<Rightarrow> addr \<Rightarrow> state \<Rightarrow> state" where
  "cache_store net key c st =
     st\<lparr>networks := (networks st)
          (net := (networks st net)
             \<lparr>concat_sources_dropout_cache :=
                (concat_sources_dropout_cache (networks st net))(key \<mapsto> c)\<rparr>)\<rparr>"

definition concat_sources ::
  "data_methods \<Rightarrow> tf_env \<Rightarrow> LayerBase list \<Rightarrow> state \<Rightarrow> (error + addr) \<times> state" where
  "concat_sources dm env src_layers st =
     (case src_layers of
        [] \<Rightarrow> (Inl AssertionError, st)
      | [l0] \<Rightarrow> (Inr (layer_output l0), st)
      | l0 # _ \<Rightarrow>
          (let net = network l0; key = (map layer_id src_layers, 0)
           in (case concat_sources_dropout_cache (networks st net) key of
                 Some c \<Rightarrow> (let (a, st1) = Data_copy c st in (Inr a, st1))
               | None \<Rightarrow>
                   (case get_concat_sources_data_template src_layers st of
                      (Inl e, st1) \<Rightarrow> (Inl e, st1)
                    | (Inr data, st1) \<Rightarrow>
                        (case check_sources dm env (heap st1 data)
                                (map (\<lambda>l. heap st1 (layer_output l)) src_layers) of
                           Some e \<Rightarrow> (Inl e, st1)
                         | None \<Rightarrow>
                             (let prefix_shape = butlast (shape (heap st1 data));
                                  vals = map (\<lambda>l. get_placeholder_with_specific_batch_dim_axis dm
                                                     (heap st1 (layer_output l))
                                                     (batch_dim_axis (heap st1 data)))
                                             src_layers;
                                  (t, g) = build (TfOp ''concat''
                                                    (PyInt (int (length prefix_shape) + 1) # vals))
                                                 (ops st1);
                                  st2 = st1\<lparr>ops := g,
                                            heap := (heap st1)
                                              (data := (heap st1 data)\<lparr>placeholder := Some t\<rparr>)\<rparr>
                              in (case size_placeholder (heap st2 (layer_output l0)) of
                                    None \<Rightarrow> (Inl AttributeError, st2)
                                  | Some sp \<Rightarrow>
                                      (let st3 = st2\<lparr>heap := (heap st2)
                                                   (data := (heap st2 data)
                                                      \<lparr>size_placeholder := Some sp\<rparr>)\<rparr>;
                                           (c, st4) = Data_copy data st3
                                       in (Inr data, cache_store net key c st4)))))))))"

text \<open>
  Modelled from the spec: \<^verbatim>\<open>TFNetwork.cond_on_train\<close> (\<^verbatim>\<open>TFNetwork\<close> is not under
  src/).  Section 4.3: "Dropout is applied only when \<open>train_flag\<close> is statically or
  dynamically true".  With a static flag only the branch taken is built; with a tensor
  flag both branches are built and an engine conditional selects between them.
\<close>

definition cond_on_train ::
  "nat \<Rightarrow> (state \<Rightarrow> (error + tensor) \<times> state) \<Rightarrow> (state \<Rightarrow> (error + tensor) \<times> state)
     \<Rightarrow> state \<Rightarrow> (error + tensor) \<times> state" where
  "cond_on_train net fn_train fn_eval st =
     (case train_flag (networks st net) of
        TrainTrue \<Rightarrow> fn_train st
      | TrainFalse \<Rightarrow> fn_eval st
      | TrainTensor flag \<Rightarrow>
          (case fn_train st of
             (Inl e, st1) \<Rightarrow> (Inl e, st1)
           | (Inr a, st1) \<Rightarrow>
               (case fn_eval st1 of
                  (Inl e, st2) \<Rightarrow> (Inl e, st2)
                | (Inr b, st2) \<Rightarrow>
                    (let (t, g) = build (TfOp ''cond'' [flag, a, b]) (ops st2)
                     in (Inr t, st2\<lparr>ops := g\<rparr>)))))"

text \<open>
  The two closures of \<^verbatim>\<open>concat_sources_with_opt_dropout\<close>.  \<open>fn_train\<close> draws the seed
  from the network's random generator and builds the dropout operation with
  \<^verbatim>\<open>keep_prob = 1 - dropout\<close>.
\<close>

definition fn_train :: "data_methods \<Rightarrow> nat \<Rightarrow> addr \<Rightarrow> real \<Rightarrow> state \<Rightarrow> (error + tensor) \<times> state" where
  "fn_train dm net data dropout st =
     (case placeholder (heap st data) of
        None \<Rightarrow> (Inl TypeError, st)
      | Some p \<Rightarrow>
          (let seed = random_draws (networks st net);
               st1 = st\<lparr>networks := (networks st)
                          (net := (networks st net)\<lparr>random_draws := Suc seed\<rparr>)\<rparr>;
               (t, g) = build (TfOp ''dropout''
                                 [p, PyFloat (1 - dropout),
                                  TfOp ''noise_shape''
                                    (map PyInt (non_dynamic_batch_shape dm (heap st data))),
                                  TfOp ''randint'' [PyInt (int seed)]])
                              (ops st1)
           in (Inr t, st1\<lparr>ops := g\<rparr>)))"

definition fn_eval :: "addr \<Rightarrow> state \<Rightarrow> (error + tensor) \<times> state" where
  "fn_eval data st =
     (case placeholder (heap st data) of
        None \<Rightarrow> (Inl TypeError, st)
      | Some p \<Rightarrow> (Inr p, st))"

definition concat_sources_with_opt_dropout ::
  "data_methods \<Rightarrow> tf_env \<Rightarrow> LayerBase list \<Rightarrow> real \<Rightarrow> state \<Rightarrow> (error + addr) \<times> state" where
  "concat_sources_with_opt_dropout dm env src_layers dropout0 st =
     (case src_layers of
        [] \<Rightarrow> (Inl AssertionError, st)
      | l0 # _ \<Rightarrow>
          (case concat_sources dm env src_layers st of
             (Inl e, st1) \<Rightarrow> (Inl e, st1)
           | (Inr data, st1) \<Rightarrow>
               (let net = network l0;
                    dropout = (if train_flag (networks st1 net) = TrainFalse then 0 else dropout0)
                in if dropout = 0 then (Inr data, st1)
                   else
                     (case concat_sources_dropout_cache (networks st1 net)
                             (map layer_id src_layers, dropout) of
                        Some c \<Rightarrow> (let (a, st2) = Data_copy c st1 in (Inr a, st2))
                      | None \<Rightarrow>
                          if \<not> (0 < dropout \<and> dropout < 1) then (Inl AssertionError, st1)
                          else
                            (case cond_on_train net (fn_train dm net data dropout)
                                    (fn_eval data) st1 of
                               (Inl e, st2) \<Rightarrow> (Inl e, st2)
                             | (Inr t, st2) \<Rightarrow>
                                 (let st3 = st2\<lparr>heap := (heap st2)
                                              (data := (heap st2 data)\<lparr>placeholder := Some t\<rparr>)\<rparr>;
                                      (c, st4) = Data_copy data st3
                                  in (Inr data,
                                      cache_store net (map layer_id src_layers, dropout) c st4)))))))"

subsection \<open>Conditions on the sources of a concatenation\<close>

text \<open>
  \<open>src_data\<close> is the output descriptor of a source layer.  \<open>source_ok\<close> holds the
  assertions of \<^verbatim>\<open>concat_sources\<close> that concern one source alone (dense, a placeholder
  of one rank more than the shape, a last shape entry that is given); \<open>sources_agree\<close>
  holds those that compare a source with the first one: dtype, time axis and the shape up
  to the feature axis.  \<open>last_dim\<close> is the last shape entry of a descriptor.
\<close>

definition src_data :: "state \<Rightarrow> LayerBase \<Rightarrow> Data" where
  "src_data st l = heap st (layer_output l)"

definition source_ok :: "tf_env \<Rightarrow> Data \<Rightarrow> bool" where
  "source_ok env d =
     (\<not> sparse d \<and> shape d \<noteq> [] \<and> last (shape d) \<noteq> None \<and> last (shape d) \<noteq> Some 0 \<and>
      (case placeholder d of
         None \<Rightarrow> False
       | Some p \<Rightarrow> map_option length (get_shape env p) = Some (length (shape d) + 1)))"

definition sources_agree :: "data_methods \<Rightarrow> Data \<Rightarrow> Data \<Rightarrow> bool" where
  "sources_agree dm d0 d =
     (dtype d = dtype d0 \<and>
      time_dim_axis_excluding_batch dm d = time_dim_axis_excluding_batch dm d0 \<and>
      butlast (shape d) = butlast (shape d0))"

definition last_dim :: "Data \<Rightarrow> int" where
  "last_dim d = (case last (shape d) of None \<Rightarrow> 0 | Some n \<Rightarrow> n)"


subsection \<open>The cache and the descriptors handed out\<close>

text \<open>
  \<open>cached\<close> is the set of descriptor objects some network's cache refers to.  In a
  well-formed store every one of them is allocated (\<open>cache_wf\<close>), and the outputs of the
  source layers are allocated objects that no cache refers to (\<open>sources_wf\<close>): the cache
  only ever receives fresh copies.

  \<open>concat_post st st' r\<close> relates the store before and after a call that returned the
  descriptor \<open>r\<close>: the cache is still well formed, \<open>r\<close> is allocated and not cached,
  nothing was removed from the cache, and no object allocated before the call other than
  \<open>r\<close> has changed.  \<open>cache_apart\<close> is what the callers rely on: whatever is written
  to \<open>r\<close> afterwards, every cached descriptor stays as it is, and the descriptors cached
  before the call are still cached and unchanged.
\<close>

definition cached :: "state \<Rightarrow> addr set" where
  "cached st = {c. \<exists>n k. concat_sources_dropout_cache (networks st n) k = Some c}"

definition cache_wf :: "state \<Rightarrow> bool" where
  "cache_wf st = (\<forall>c\<in>cached st. c < next_addr st)"

definition sources_wf :: "state \<Rightarrow> LayerBase list \<Rightarrow> bool" where
  "sources_wf st ls = (\<forall>l\<in>set ls. layer_output l < next_addr st \<and> layer_output l \<notin> cached st)"

definition concat_post :: "state \<Rightarrow> state \<Rightarrow> addr \<Rightarrow> bool" where
  "concat_post st st' r =
     (cache_wf st' \<and> r < next_addr st' \<and> r \<notin> cached st' \<and> next_addr st \<le> next_addr st' \<and>
      cached st \<subseteq> cached st' \<and>
      (\<forall>a. a < next_addr st \<and> a \<noteq> r \<longrightarrow> heap st' a = heap st a))"

definition cache_apart :: "state \<Rightarrow> state \<Rightarrow> addr \<Rightarrow> bool" where
  "cache_apart st st' r =
     (cache_wf st' \<and> r \<notin> cached st' \<and>
      (\<forall>c\<in>cached st'. \<forall>d. heap (st'\<lparr>heap := (heap st')(r := d)\<rparr>) c = heap st' c) \<and>
      (\<forall>c\<in>cached st. c \<in> cached st' \<and> heap st' c = heap st c))"

subsection \<open>The slice layer\<close>

text \<open>
  What a length tensor is when the graph runs: a vector with one integer per example, or
  a scalar.  The engine's length tensors are 32-bit signed integers: \<open>int32 i\<close> is
  the value of that type that \<open>i\<close> wraps to, and a Python integer that meets a length
  tensor in an operation becomes a constant of that type.
\<close>

definition int32 :: "int \<Rightarrow> int" where
  "int32 i = (i + 2 ^ 31) mod 2 ^ 32 - 2 ^ 31"

datatype tval = Scalar int | Vec "int list"

fun map_tval :: "(int \<Rightarrow> int) \<Rightarrow> tval \<Rightarrow> tval" where
  "map_tval f (Scalar a) = Scalar (f a)"
| "map_tval f (Vec as) = Vec (map f as)"

fun elems :: "tval \<Rightarrow> int list" where
  "elems (Scalar a) = [a]"
| "elems (Vec as) = as"

text \<open>
  The engine's binary operations work elementwise; a scalar or a vector of one element
  is broadcast, and two vectors of other, different lengths are refused.
\<close>

fun lift2 :: "(int \<Rightarrow> int \<Rightarrow> int) \<Rightarrow> tval \<Rightarrow> tval \<Rightarrow> tval option" where
  "lift2 f (Scalar a) (Scalar b) = Some (Scalar (f a b))"
| "lift2 f (Scalar a) (Vec bs) = Some (Vec (map (f a) bs))"
| "lift2 f (Vec as) (Scalar b) = Some (Vec (map (\<lambda>a. f a b) as))"
| "lift2 f (Vec as) (Vec bs) =
     (if length as = length bs then Some (Vec (map (\<lambda>(a, b). f a b) (zip as bs)))
      else if length as = 1 then Some (Vec (map (f (hd as)) bs))
      else if length bs = 1 then Some (Vec (map (\<lambda>a. f a (hd bs)) as))
      else None)"

text \<open>
  \<open>run env shp t\<close> is the value of \<open>t\<close> when the handles have the values \<open>env\<close> and
  \<open>shp t i\<close> is the extent of axis \<open>i\<close> of \<open>t\<close>, or \<open>None\<close> when the engine stops
  with an error (an integer division by zero) or \<open>t\<close> is not one of the integer
  operations of the slice layer.  Subtraction wraps around; \<^verbatim>\<open>//\<close> on a tensor is the
  engine's floor division.
\<close>

fun run :: "(string \<Rightarrow> tval) \<Rightarrow> (tensor \<Rightarrow> int \<Rightarrow> int) \<Rightarrow> tensor \<Rightarrow> tval option" where
  "run env shp (Handle h) = Some (map_tval int32 (env h))"
| "run env shp (PyInt i) = Some (Scalar (int32 i))"
| "run env shp (PyFloat r) = None"
| "run env shp (TfMaximum a b) =
     (case (run env shp a, run env shp b) of
        (Some u, Some v) \<Rightarrow> lift2 max u v | _ \<Rightarrow> None)"
| "run env shp (TfMinimum a b) =
     (case (run env shp a, run env shp b) of
        (Some u, Some v) \<Rightarrow> lift2 min u v | _ \<Rightarrow> None)"
| "run env shp (TfSub a b) =
     (case (run env shp a, run env shp b) of
        (Some u, Some v) \<Rightarrow> lift2 (\<lambda>p q. int32 (p - q)) u v | _ \<Rightarrow> None)"
| "run env shp (TfFloorDiv a b) =
     (case (run env shp a, run env shp b) of
        (Some u, Some v) \<Rightarrow>
          if 0 \<in> set (elems v) then None else lift2 (\<lambda>p q. int32 (p div q)) u v
      | _ \<Rightarrow> None)"
| "run env shp (TfShapeAt t i) = Some (Scalar (int32 (shp t i)))"
| "run env shp (TfOp f args) = None"

text \<open>\<^verbatim>\<open>str.upper\<close> and \<^verbatim>\<open>str.lower\<close> on ASCII letters.\<close>

definition upper :: "string \<Rightarrow> string" where
  "upper s = map (\<lambda>c. case map_of (zip ''abcdefghijklmnopqrstuvwxyz''
                                         ''ABCDEFGHIJKLMNOPQRSTUVWXYZ'') c of
                         None \<Rightarrow> c | Some u \<Rightarrow> u) s"

definition lower :: "string \<Rightarrow> string" where
  "lower s = map (\<lambda>c. case map_of (zip ''ABCDEFGHIJKLMNOPQRSTUVWXYZ''
                                         ''abcdefghijklmnopqrstuvwxyz'') c of
                         None \<Rightarrow> c | Some u \<Rightarrow> u) s"

text \<open>\<^verbatim>\<open>SliceLayer._get_axis\<close>.\<close>

definition SliceLayer_get_axis ::
  "data_methods \<Rightarrow> int option \<Rightarrow> string option \<Rightarrow> Data \<Rightarrow> error + int option" where
  "SliceLayer_get_axis dm axis axis_kind input_data =
     (case axis of
        Some a \<Rightarrow>
          if truthy_str axis_kind then Inl AssertionError
          else if \<not> (0 \<le> a \<and> a < int (length (batch_shape dm input_data)))
          then Inl AssertionError
          else Inr (Some a)
      | None \<Rightarrow>
          (case axis_kind of
             None \<Rightarrow> Inl AssertionError
           | Some kind0 \<Rightarrow>
               if kind0 = [] then Inl AssertionError
               else
                 (let k = upper kind0
                  in if k = ''T'' then
                       (case time_dim_axis input_data of
                          None \<Rightarrow> Inl AssertionError | Some t \<Rightarrow> Inr (Some t))
                     else if k = ''B'' then
                       (case batch_dim_axis input_data of
                          None \<Rightarrow> Inl AssertionError | Some b \<Rightarrow> Inr (Some b))
                     else if k = ''F'' then
                       (case get_axes_exclude_time_batch dm input_data of
                          [a] \<Rightarrow> Inr (Some a) | _ \<Rightarrow> Inl AssertionError)
                     else Inr None)))"

text \<open>
  \<^verbatim>\<open>d[key] = f(d[key])\<close> on a dictionary attribute that may be \<^verbatim>\<open>None\<close>, with a key
  that may be \<^verbatim>\<open>None\<close>: the read comes first and fails when there is no dictionary or
  no such key.
\<close>

definition update_len ::
  "(tensor \<Rightarrow> tensor) \<Rightarrow> int option \<Rightarrow> (int \<times> tensor) list option
     \<Rightarrow> error + (int \<times> tensor) list option" where
  "update_len f key sp =
     (case sp of
        None \<Rightarrow> Inl TypeError
      | Some m \<Rightarrow>
          (case key of
             None \<Rightarrow> Inl KeyError
           | Some k \<Rightarrow>
               (case map_of m k of
                  None \<Rightarrow> Inl KeyError
                | Some v \<Rightarrow> Inr (Some (AList.update k (f v) m)))))"

text \<open>
  \<^verbatim>\<open>if v: ...\<close> for an \<^verbatim>\<open>int|None\<close> option \<open>v\<close>: the branch runs when \<open>v\<close> is given
  and not zero.
\<close>

definition if_given :: "int option \<Rightarrow> (int \<Rightarrow> 'a \<Rightarrow> error + 'a) \<Rightarrow> 'a \<Rightarrow> error + 'a" where
  "if_given v f s = (case v of None \<Rightarrow> Inr s | Some k \<Rightarrow> if k = 0 then Inr s else f k s)"

definition and_then :: "error + 'a \<Rightarrow> ('a \<Rightarrow> error + 'b) \<Rightarrow> error + 'b" where
  "and_then r f = (case r of Inl e \<Rightarrow> Inl e | Inr v \<Rightarrow> f v)"

definition py_slice :: "int option \<Rightarrow> int option \<Rightarrow> int option \<Rightarrow> tensor" where
  "py_slice a b c =
     TfOp ''slice'' (map (\<lambda>v. case v of None \<Rightarrow> TfOp ''None'' [] | Some i \<Rightarrow> PyInt i) [a, b, c])"

text \<open>
  The body of \<^verbatim>\<open>SliceLayer.__init__\<close> after the base class has set \<open>input_data\<close> and
  \<open>output\<close>.  The output's dictionary of lengths is the input's dictionary itself (the
  assignment shares it), so the function returns both descriptors, each with the
  dictionary as the layer leaves it.  The last statement subscripts the input's tensor
  with the slices; a subscript of \<^verbatim>\<open>None\<close> is a \<^verbatim>\<open>TypeError\<close>, and the engine refuses
  a slice whose step is zero with a \<^verbatim>\<open>ValueError\<close>.
\<close>

definition SliceLayer_sizes ::
  "data_methods \<Rightarrow> int \<Rightarrow> int option \<Rightarrow> int option \<Rightarrow> int option \<Rightarrow> Data
     \<Rightarrow> error + (int \<times> tensor) list option" where
  "SliceLayer_sizes dm a slice_start slice_end slice_step input_data =
     (let axis_wo_batch = axis_excluding_batch dm (batch_dim_axis input_data) a;
          t = time_dim_axis_excluding_batch dm input_data;
          sp0 = size_placeholder input_data
      in if Some a = time_dim_axis input_data then
           and_then
             (if_given slice_start
                (\<lambda>k sp. if \<not> 0 < k then Inl AssertionError
                         else update_len (\<lambda>v. TfMaximum (PyInt 0) (TfSub v (PyInt k))) t sp)
                sp0)
             (\<lambda>sp1. and_then
                (if_given slice_end
                   (\<lambda>k sp. if \<not> 0 < k then Inl AssertionError
                            else (case placeholder input_data of
                                    None \<Rightarrow> Inl TypeError
                                  | Some p \<Rightarrow>
                                      update_len
                                        (\<lambda>v. TfMinimum (TfSub (TfShapeAt p a) (PyInt k)) v) t sp))
                   sp1)
                (\<lambda>sp2. if_given slice_step
                          (\<lambda>k sp. update_len (\<lambda>v. TfFloorDiv v (PyInt k)) t sp) sp2))
         else
           (case axis_wo_batch of
              None \<Rightarrow> Inr sp0
            | Some w \<Rightarrow>
                (case sp0 of
                   None \<Rightarrow> Inl TypeError
                 | Some m \<Rightarrow> if map_of m w \<noteq> None then Inl AssertionError else Inr sp0)))"

definition SliceLayer_init ::
  "data_methods \<Rightarrow> int option \<Rightarrow> string option \<Rightarrow> int option \<Rightarrow> int option \<Rightarrow> int option
     \<Rightarrow> Data \<Rightarrow> Data \<Rightarrow> error + Data \<times> Data" where
  "SliceLayer_init dm axis axis_kind slice_start slice_end slice_step input_data out =
     (case SliceLayer_get_axis dm axis axis_kind input_data of
        Inl e \<Rightarrow> Inl e
      | Inr None \<Rightarrow> Inl TypeError
      | Inr (Some a) \<Rightarrow>
          (case SliceLayer_sizes dm a slice_start slice_end slice_step input_data of
             Inl e \<Rightarrow> Inl e
           | Inr sp \<Rightarrow>
               (case placeholder input_data of
                  None \<Rightarrow> Inl TypeError
                | Some p \<Rightarrow>
                    if slice_step = Some 0 then Inl ValueError
                    else
                    Inr (out\<lparr>size_placeholder := sp,
                             placeholder :=
                               Some (TfOp ''getitem''
                                       [p, PyInt a, py_slice slice_start slice_end slice_step])\<rparr>,
                         input_data\<lparr>size_placeholder := sp\<rparr>))))"

text \<open>
  The length the claim gives for an example of length \<open>n\<close>: \<open>n - k\<close> clamped at 0,
  floor-divided by the step when a step is given.
\<close>

definition sliced_length :: "int \<Rightarrow> int option \<Rightarrow> int \<Rightarrow> int" where
  "sliced_length k step n =
     (case step of
        None \<Rightarrow> max 0 (n - k)
      | Some s \<Rightarrow> max 0 (n - k) div s)"

definition ex_lens :: "string \<Rightarrow> tval" where
  "ex_lens h = (if h = ''a_len'' then Vec [5, 9] else Scalar 0)"

subsection \<open>The reduce layer\<close>

text \<open>
  The \<open>axis\<close> argument of the reduce layer: a string, an integer or a list of integers.
\<close>

datatype axis_arg = AxisStr string | AxisInt int | AxisList "int list"

text \<open>\<^verbatim>\<open>list.remove(v)\<close>: the first occurrence goes; a value that is not there is an error.\<close>

definition list_remove :: "int option \<Rightarrow> int list \<Rightarrow> error + int list" where
  "list_remove v xs =
     (case v of
        None \<Rightarrow> Inl ValueError
      | Some i \<Rightarrow> if i \<in> set xs then Inr (remove1 i xs) else Inl ValueError)"

text \<open>The last three statements of \<^verbatim>\<open>ReduceLayer._get_axis\<close>, on a list of axes.\<close>

definition normalize_axes :: "data_methods \<Rightarrow> Data \<Rightarrow> int list \<Rightarrow> error + int list" where
  "normalize_axes dm input_data axis =
     (if \<not> 0 < length axis then Inl AssertionError
      else if batch_ndim dm input_data = 0 then Inl ZeroDivisionError
      else Inr (map (\<lambda>i. i mod batch_ndim dm input_data) axis))"

definition ReduceLayer_get_axis :: "data_methods \<Rightarrow> axis_arg \<Rightarrow> Data \<Rightarrow> error + int list" where
  "ReduceLayer_get_axis dm axis input_data =
     (case axis of
        AxisStr s0 \<Rightarrow>
          (let s = lower s0
           in if s = ''b'' \<or> s = ''batch'' then normalize_axes dm input_data [0]
              else if s = ''spatial'' then
                and_then (list_remove (batch_dim_axis input_data)
                            (get_dynamic_batch_axes dm input_data))
                         (normalize_axes dm input_data)
              else if s = ''spatial_except_time'' then
                and_then (list_remove (batch_dim_axis input_data)
                            (get_dynamic_batch_axes dm input_data))
                  (\<lambda>a1. and_then (list_remove (time_dim_axis input_data) a1)
                           (normalize_axes dm input_data))
              else if s = ''f'' \<or> s = ''feature'' then
                normalize_axes dm input_data (get_non_dynamic_axes dm input_data)
              else Inl (Exception ''invalid axis mode''))
      | AxisInt i \<Rightarrow> normalize_axes dm input_data [i]
      | AxisList is \<Rightarrow> normalize_axes dm input_data is)"

text \<open>
  The dictionary of lengths of the reduce layer's output (lines 916 to 926).  A
  dictionary comprehension inserts the items in order, a later item replacing an earlier
  one with the same key.
\<close>

definition dict_of_items :: "(int \<times> tensor) list \<Rightarrow> (int \<times> tensor) list" where
  "dict_of_items items = foldl (\<lambda>d (k, v). AList.update k v d) [] items"

definition keep_axis :: "int \<Rightarrow> (int \<times> tensor) list \<Rightarrow> (int \<times> tensor) list" where
  "keep_axis i d = (if map_of d i \<noteq> None then AList.update i (PyInt 1) d else d)"

definition drop_axis :: "int \<Rightarrow> (int \<times> tensor) list \<Rightarrow> (int \<times> tensor) list" where
  "drop_axis i d =
     dict_of_items
       (map (\<lambda>(j, s). (if j < i then j else j - 1, s))
            (if map_of d i \<noteq> None then AList.delete i d else d))"

definition y_dyn_sizes :: "bool \<Rightarrow> int list \<Rightarrow> (int \<times> tensor) list \<Rightarrow> (int \<times> tensor) list" where
  "y_dyn_sizes keep_dims axis sizes =
     (if keep_dims then foldl (\<lambda>d i. keep_axis i d) sizes axis
      else foldl (\<lambda>d i. drop_axis i d) sizes (rev (sort axis)))"

text \<open>
  \<^verbatim>\<open>ReduceLayer.__init__\<close> after the base class has set \<open>input_data\<close> and \<open>output\<close>.
\<close>

definition ReduceLayer_init ::
  "data_methods \<Rightarrow> string \<Rightarrow> axis_arg \<Rightarrow> bool \<Rightarrow> int \<Rightarrow> Data \<Rightarrow> Data \<Rightarrow> error + Data" where
  "ReduceLayer_init dm mode0 axis keep_dims enforce_batch_dim_axis input_data out =
     (let mode = lower mode0
      in if mode \<notin> {''max'', ''sum'', ''avg'', ''mean''} then Inl AssertionError
         else if sparse input_data then Inl AssertionError
         else
           (case placeholder input_data of
              None \<Rightarrow> Inl TypeError
            | Some x0 \<Rightarrow>
                (let x = (if batch_dim_axis input_data \<noteq> Some enforce_batch_dim_axis
                          then TfOp ''swapaxes''
                                 [x0,
                                  (case batch_dim_axis input_data of
                                     None \<Rightarrow> TfOp ''None'' [] | Some b \<Rightarrow> PyInt b),
                                  PyInt enforce_batch_dim_axis]
                          else x0)
                 in (case ReduceLayer_get_axis dm axis input_data of
                       Inl e \<Rightarrow> Inl e
                     | Inr axes \<Rightarrow>
                         (let f = (if mode = ''max'' then ''reduce_max''
                                   else if mode = ''sum'' then ''reduce_sum''
                                   else ''reduce_mean'');
                              y = TfOp f [x, TfOp ''axis'' (map PyInt axes),
                                           PyInt (if keep_dims then 1 else 0)]
                          in (case size_placeholder input_data of
                                None \<Rightarrow> Inl AttributeError
                              | Some sizes \<Rightarrow>
                                  Inr (out\<lparr>placeholder := Some y,
                                           size_placeholder :=
                                             Some (y_dyn_sizes keep_dims axes sizes)\<rparr>)))))))"

text \<open>
  The claim's words for the dictionary as a map: removing axis \<open>i\<close> drops its entry and
  moves every entry with a greater key one key down.
\<close>

definition remove_and_renumber :: "int \<Rightarrow> (int \<rightharpoonup> tensor) \<Rightarrow> (int \<rightharpoonup> tensor)" where
  "remove_and_renumber i m = (\<lambda>k. if k < i then m k else m (k + 1))"


subsection \<open>Regularisation\<close>

text \<open>
  Python arithmetic on the values of the regularisation code.  Two numbers give a number
  (an \<^verbatim>\<open>int\<close> only from two \<^verbatim>\<open>int\<close>s); as soon as a tensor takes part the engine
  builds an operation and the result is a tensor.
\<close>

fun to_tensor :: "pynum \<Rightarrow> tensor" where
  "to_tensor (PInt i) = PyInt i"
| "to_tensor (PFloat r) = PyFloat r"
| "to_tensor (PTensor t) = t"

fun py_mul :: "pynum \<Rightarrow> pynum \<Rightarrow> pynum" where
  "py_mul (PInt a) (PInt b) = PInt (a * b)"
| "py_mul (PInt a) (PFloat b) = PFloat (of_int a * b)"
| "py_mul (PFloat a) (PInt b) = PFloat (a * of_int b)"
| "py_mul (PFloat a) (PFloat b) = PFloat (a * b)"
| "py_mul a b = PTensor (TfOp ''mul'' [to_tensor a, to_tensor b])"

fun py_add :: "pynum \<Rightarrow> pynum \<Rightarrow> pynum" where
  "py_add (PInt a) (PInt b) = PInt (a + b)"
| "py_add (PInt a) (PFloat b) = PFloat (of_int a + b)"
| "py_add (PFloat a) (PInt b) = PFloat (a + of_int b)"
| "py_add (PFloat a) (PFloat b) = PFloat (a + b)"
| "py_add a b = PTensor (TfOp ''add'' [to_tensor a, to_tensor b])"

text \<open>
  Python truth of an optional number: \<^verbatim>\<open>None\<close> and zero are false; the engine refuses
  to use a tensor as a truth value.
\<close>

fun truthy_num :: "pynum option \<Rightarrow> error + bool" where
  "truthy_num None = Inr False"
| "truthy_num (Some (PInt i)) = Inr (i \<noteq> 0)"
| "truthy_num (Some (PFloat r)) = Inr (r \<noteq> 0)"
| "truthy_num (Some (PTensor t)) = Inl TypeError"

text \<open>\<^verbatim>\<open>c is 0\<close>: true of the integer object 0 only, not of the float 0.0.\<close>

definition is_int_zero :: "pynum \<Rightarrow> bool" where
  "is_int_zero c = (c = PInt 0)"

text \<open>\<^verbatim>\<open>LayerBase.get_params_l2_norm\<close>: \<^verbatim>\<open>sum\<close> starts from the integer 0.\<close>

definition get_params_l2_norm :: "LayerBase \<Rightarrow> pynum" where
  "get_params_l2_norm self =
     py_mul (PInt 2)
       (foldl py_add (PInt 0)
          (map (\<lambda>(name, param). PTensor (TfOp ''l2_loss'' [param]))
               (sort_key fst (params self))))"

text \<open>
  \<^verbatim>\<open>LayerBase.get_output_spatial_smoothing_energy\<close> on the layer's output descriptor.
\<close>

definition get_output_spatial_smoothing_energy :: "data_methods \<Rightarrow> Data \<Rightarrow> error + pynum" where
  "get_output_spatial_smoothing_energy dm out =
     (case placeholder out of
        None \<Rightarrow> Inl TypeError
      | Some p \<Rightarrow>
          (let energy = TfOp ''spatial_smoothing_energy''
                          [p, (case dim out of None \<Rightarrow> TfOp ''None'' [] | Some n \<Rightarrow> PyInt n)]
           in if \<not> have_tim_axis dm out then Inl AssertionError
              else
                (case size_placeholder out of
                   None \<Rightarrow> Inl TypeError
                 | Some sizes \<Rightarrow>
                     (case time_dim_axis_excluding_batch dm out of
                        None \<Rightarrow> Inl KeyError
                      | Some t \<Rightarrow>
                          (case map_of sizes t of
                             None \<Rightarrow> Inl KeyError
                           | Some seq_lens \<Rightarrow>
                               Inr (PTensor
                                      (TfOp ''reduce_sum''
                                         [TfOp ''flatten_with_seq_len_mask''
                                            [energy, seq_lens, time_major_tag out]])))))))"

definition LayerBase_get_constraints_value ::
  "data_methods \<Rightarrow> LayerBase \<Rightarrow> Data \<Rightarrow> error + pynum option" where
  "LayerBase_get_constraints_value dm self out =
     and_then (truthy_num (L2 self))
       (\<lambda>use_l2.
          (let c1 = (if use_l2
                     then py_add (PInt 0)
                            (py_mul (case L2 self of None \<Rightarrow> PInt 0 | Some v \<Rightarrow> v)
                                    (get_params_l2_norm self))
                     else PInt 0)
           in and_then (truthy_num (Some (spatial_smoothing self)))
                (\<lambda>use_ss.
                   and_then
                     (if use_ss
                      then and_then (get_output_spatial_smoothing_energy dm out)
                             (\<lambda>energy. Inr (py_add c1 (py_mul (spatial_smoothing self) energy)))
                      else Inr c1)
                     (\<lambda>c. if is_int_zero c then Inr None else Inr (Some c)))))"

text \<open>
  \<^verbatim>\<open>SubnetworkLayer.get_constraints_value\<close>.  \<^verbatim>\<open>TFNetwork\<close> is not under src/:
  \<open>total_constraints_of n\<close> is the attribute \<^verbatim>\<open>total_constraints\<close> of the network object
  \<open>n\<close> after \<^verbatim>\<open>maybe_construct_objective()\<close>, a parameter of the model.
\<close>

definition SubnetworkLayer_get_constraints_value ::
  "(nat \<Rightarrow> pynum) \<Rightarrow> LayerBase \<Rightarrow> error + pynum option" where
  "SubnetworkLayer_get_constraints_value total_constraints_of self =
     (case subnetwork self of
        None \<Rightarrow> Inl AttributeError
      | Some n \<Rightarrow>
          (let v = total_constraints_of n
           in if is_int_zero v then Inr None else Inr (Some v)))"

text \<open>The method a layer object answers with: the override for a subnetwork layer.\<close>

definition get_constraints_value ::
  "(nat \<Rightarrow> pynum) \<Rightarrow> data_methods \<Rightarrow> LayerBase \<Rightarrow> Data \<Rightarrow> error + pynum option" where
  "get_constraints_value total_constraints_of dm self out =
     (if layer_kind self = SubnetworkLayer
      then SubnetworkLayer_get_constraints_value total_constraints_of self
      else LayerBase_get_constraints_value dm self out)"

subsection \<open>Construction of a layer and inference of its output\<close>














section \<open>Concrete inputs\<close>

definition ex_env :: tf_env where
  "ex_env = \<lparr>get_shape = (\<lambda>t. None), get_logits = (\<lambda>owa. None)\<rparr>"

definition ex_data :: "string \<Rightarrow> int \<Rightarrow> bool \<Rightarrow> Data" where
  "ex_data nm n sp =
     \<lparr>name = nm, shape = (if sp then [None] else [None, Some n]), dim = Some n, sparse = sp,
      batch_dim_axis = Some 0, time_dim_axis = Some 1, dtype = ''float32'',
      placeholder = Some (Handle nm),
      size_placeholder = Some [(0, Handle (nm @ ''_len''))]\<rparr>"

definition ex_ctc_dense :: Loss where
  "ex_ctc_dense =
     \<lparr>class_name = CtcLoss, loss_output = ex_data ''out'' 5 False,
      output_with_activation = None, output_seq_lens = Handle ''out_len'',
      loss_target = ex_data ''classes'' 4 False, target_seq_lens = Handle ''classes_len'',
      target_collapse_repeated = False, auto_clip_target_len = False,
      target_sparse_labels = None\<rparr>"

definition ex_lstm_cell_class :: rnn_cell_class where
  "ex_lstm_cell_class = \<lparr>cell_name = ''basiclstm'', kind = RNNCell\<rparr>"

definition ex_layer :: "string \<Rightarrow> string option \<Rightarrow> bool option \<Rightarrow> LayerBase" where
  "ex_layer nm tgt flag =
     \<lparr>layer_id = 0, layer_name = nm, network = 0, target = tgt, loss = None,
      layer_output = 0, params = [], L2 = None, is_output_layer_opt = flag,
      spatial_smoothing = PFloat 0, layer_kind = FsaLayer, recurrent = False,
      subnetwork = None\<rparr>"

definition ex_env3 :: tf_env where
  "ex_env3 = \<lparr>get_shape = (\<lambda>t. Some [None, None, None]), get_logits = (\<lambda>owa. None)\<rparr>"

definition ex_dm :: data_methods where
  "ex_dm =
     \<lparr>axis_excluding_batch =
        (\<lambda>b a. case b of None \<Rightarrow> Some a
                | Some b' \<Rightarrow> if a = b' then None else if a < b' then Some a else Some (a - 1)),
      get_placeholder_with_specific_batch_dim_axis =
        (\<lambda>d b. case placeholder d of None \<Rightarrow> Handle ''none'' | Some p \<Rightarrow> p),
      non_dynamic_batch_shape = (\<lambda>d. [1, 1, case dim d of None \<Rightarrow> 1 | Some n \<Rightarrow> n]),
      batch_shape = (\<lambda>d. None # shape d),
      batch_ndim = (\<lambda>d. int (length (shape d)) + 1),
      get_axes_exclude_time_batch = (\<lambda>d. [2]),
      get_dynamic_batch_axes = (\<lambda>d. [0, 1]),
      get_non_dynamic_axes = (\<lambda>d. [2]),
      have_tim_axis = (\<lambda>d. time_dim_axis d \<noteq> None),
      matches_dim_pattern =
        (\<lambda>a b. batch_dim_axis a = batch_dim_axis b \<and> time_dim_axis a = time_dim_axis b \<and>
                butlast (shape a) = butlast (shape b))\<rparr>"

definition ex_net :: "train_flag \<Rightarrow> Network" where
  "ex_net flag =
     \<lparr>train_flag = flag, concat_sources_dropout_cache = Map.empty, random_draws = 0,
      default_target = Some ''classes'', default_input = Some ''data'',
      extern_data = Map.empty, layers = Map.empty\<rparr>"

text \<open>
  Three source layers: \<open>a\<close> of width 5 at address 0, \<open>b\<close> of width 3 at address 1 and
  \<open>c\<close>, an integer-typed one of width 3, at address 2.
\<close>

definition ex_src :: "nat \<Rightarrow> LayerBase" where
  "ex_src i = (ex_layer ''src'' None None)\<lparr>layer_id := i, layer_output := i\<rparr>"

definition ex_state :: "train_flag \<Rightarrow> state" where
  "ex_state flag =
     \<lparr>heap = (\<lambda>a. if a = 0 then ex_data ''a'' 5 False
                  else if a = 1 then ex_data ''b'' 3 False
                  else (ex_data ''c'' 3 False)\<lparr>dtype := ''int32''\<rparr>),
      next_addr = 3, networks = (\<lambda>n. ex_net flag), ops = []\<rparr>"

definition ex_subnet_layer :: LayerBase where
  "ex_subnet_layer =
     (ex_layer ''sub'' None None)\<lparr>L2 := Some (PFloat (1/100)), layer_kind := SubnetworkLayer,
                                   subnetwork := Some 1\<rparr>"

definition ex_l2_layer :: LayerBase where
  "ex_l2_layer = (ex_layer ''hidden'' None None)\<lparr>L2 := Some (PFloat (1/100))\<rparr>"





section \<open>Properties\<close>

text \<open>
  C4.  The CTC loss asks for one output more than the target has classes (the blank),
  and with a dense target both \<open>get_value\<close> and \<open>get_error\<close> raise at once: the loss
  object and the list of operations built are as they were.
\<close>

theorem ctc_auto_dim_and_dense_target_raises:
  "get_auto_output_layer_dim CtcLoss d = d + 1 \<and>
   (\<not> sparse (loss_target self) \<longrightarrow>
      CtcLoss_get_value env self g =
        (Inl (Exception ''CTC target expected to be sparse (symbols)''), self, g) \<and>
      CtcLoss_get_error env self g =
        (Inl (Exception ''CTC target expected to be sparse (symbols)''), self, g))"
  by (simp add: CtcLoss_get_value_def CtcLoss_get_error_def)

theorem ctc_auto_dim_and_dense_target_raises_witness:
  "get_auto_output_layer_dim CtcLoss 4 = 5 \<and>
   \<not> sparse (loss_target ex_ctc_dense) \<and>
   CtcLoss_get_value ex_env ex_ctc_dense [] =
     (Inl (Exception ''CTC target expected to be sparse (symbols)''), ex_ctc_dense, []) \<and>
   CtcLoss_get_error ex_env ex_ctc_dense [] =
     (Inl (Exception ''CTC target expected to be sparse (symbols)''), ex_ctc_dense, [])"
proof -
  have dense: "\<not> sparse (loss_target ex_ctc_dense)"
    by (simp add: ex_ctc_dense_def ex_data_def)
  from ctc_auto_dim_and_dense_target_raises [of 4 ex_ctc_dense ex_env "[]"] dense
  show ?thesis by simp
qed

text \<open>
  C5.  A bidirectional recurrent layer whose output width \<open>n\<close> is even instantiates two
  cells, each of width \<open>n div 2\<close>; when \<open>n\<close> is odd the construction fails with an
  assertion error and no cell object has been instantiated by then.
\<close>

theorem bidirectional_splits_or_fails:
  "(n mod 2 = 0 \<and> kind cls \<noteq> OtherClass \<longrightarrow>
      RecLayer_make_cells cls (Some n) True made =
        (Inr (\<lparr>cell_class = cls, n_hidden = Some (n div 2)\<rparr>,
              Some \<lparr>cell_class = cls, n_hidden = Some (n div 2)\<rparr>),
         made @ [\<lparr>cell_class = cls, n_hidden = Some (n div 2)\<rparr>,
                 \<lparr>cell_class = cls, n_hidden = Some (n div 2)\<rparr>])) \<and>
   (n mod 2 \<noteq> 0 \<longrightarrow>
      RecLayer_make_cells cls (Some n) True made = (Inl AssertionError, made))"
  by (simp add: RecLayer_make_cells_def Let_def)

theorem bidirectional_splits_or_fails_witness:
  "RecLayer_make_cells ex_lstm_cell_class (Some 8) True [] =
     (Inr (\<lparr>cell_class = ex_lstm_cell_class, n_hidden = Some 4\<rparr>,
           Some \<lparr>cell_class = ex_lstm_cell_class, n_hidden = Some 4\<rparr>),
      [\<lparr>cell_class = ex_lstm_cell_class, n_hidden = Some 4\<rparr>,
       \<lparr>cell_class = ex_lstm_cell_class, n_hidden = Some 4\<rparr>]) \<and>
   RecLayer_make_cells ex_lstm_cell_class (Some 7) True [] = (Inl AssertionError, [])"
proof -
  have k: "kind ex_lstm_cell_class \<noteq> OtherClass"
    by (simp add: ex_lstm_cell_class_def)
  from bidirectional_splits_or_fails [of 8 ex_lstm_cell_class "[]"] k
       bidirectional_splits_or_fails [of 7 ex_lstm_cell_class "[]"]
  show ?thesis by simp
qed

text \<open>
  C10.  \<open>is_output_layer\<close> returns the flag given at construction when there is one;
  without a flag it is true exactly when the layer has a target (a non-empty target key)
  or is named \<open>output\<close>.
\<close>

theorem is_output_layer_flag_or_default:
  "(is_output_layer_opt self = Some b \<longrightarrow> is_output_layer self = b) \<and>
   (is_output_layer_opt self = None \<longrightarrow>
      is_output_layer self = (truthy_str (target self) \<or> layer_name self = ''output''))"
  by (simp add: is_output_layer_def)

theorem is_output_layer_flag_or_default_witness:
  "is_output_layer (ex_layer ''output'' None (Some False)) = False \<and>
   is_output_layer (ex_layer ''hidden'' (Some ''classes'') None) = True \<and>
   is_output_layer (ex_layer ''output'' None None) = True \<and>
   is_output_layer (ex_layer ''hidden'' None None) = False"
  using is_output_layer_flag_or_default [of "ex_layer ''output'' None (Some False)" False]
        is_output_layer_flag_or_default [of "ex_layer ''hidden'' (Some ''classes'') None"]
        is_output_layer_flag_or_default [of "ex_layer ''output'' None None"]
        is_output_layer_flag_or_default [of "ex_layer ''hidden'' None None"]
  by (simp add: ex_layer_def truthy_str_def)

subsection \<open>Concatenation and dropout\<close>

lemma template_dim_sum:
  "\<forall>s\<in>set shps. s \<noteq> [] \<and> last s \<noteq> None \<and> last s \<noteq> Some 0 \<Longrightarrow>
   template_dim shps acc =
     Inr (acc + sum_list (map (\<lambda>s. case last s of None \<Rightarrow> 0 | Some n \<Rightarrow> n) shps))"
  by (induction shps arbitrary: acc) (auto split: option.splits)

lemma check_sources_pass:
  "\<forall>d\<in>set ds. source_ok env d \<and> dtype d = dtype data \<and>
      time_dim_axis_excluding_batch dm d = time_dim_axis_excluding_batch dm data \<and>
      butlast (shape d) = butlast (shape data) \<Longrightarrow>
   check_sources dm env data ds = None"
  by (induction ds) (auto simp: source_ok_def split: option.splits)

lemma check_sources_mismatch:
  "d \<in> set ds \<Longrightarrow>
   dtype d \<noteq> dtype data \<or>
   time_dim_axis_excluding_batch dm d \<noteq> time_dim_axis_excluding_batch dm data \<or>
   butlast (shape d) \<noteq> butlast (shape data) \<Longrightarrow>
   check_sources dm env data ds \<noteq> None"
  by (induction ds) (auto split: option.splits)

lemma template_result:
  assumes "ls = l0 # rest"
    and "\<forall>l\<in>set ls. layer_output l < next_addr st"
    and "get_concat_sources_data_template ls st = (Inr data, st1)"
  shows "data = next_addr st \<and> networks st1 = networks st \<and> ops st1 = ops st \<and>
         next_addr st1 = Suc (next_addr st) \<and>
         (\<forall>l\<in>set ls. heap st1 (layer_output l) = heap st (layer_output l)) \<and>
         dtype (heap st1 data) = dtype (src_data st l0) \<and>
         batch_dim_axis (heap st1 data) = batch_dim_axis (src_data st l0) \<and>
         time_dim_axis (heap st1 data) = time_dim_axis (src_data st l0) \<and>
         butlast (shape (heap st1 data)) = butlast (shape (src_data st l0)) \<and>
         (\<exists>n. template_dim (map (\<lambda>l. shape (src_data st l)) ls) 0 = Inr n \<and>
              dim (heap st1 data) = Some n \<and> last (shape (heap st1 data)) = Some n)"
  using assms
  by (auto simp: get_concat_sources_data_template_def alloc_def Let_def src_data_def
           split: sum.splits)


lemma template_succeeds:
  assumes "ls = l0 # rest"
    and "\<forall>l\<in>set ls. shape (src_data st l) \<noteq> [] \<and> last (shape (src_data st l)) \<noteq> None \<and>
                      last (shape (src_data st l)) \<noteq> Some 0"
  shows "\<exists>data st1. get_concat_sources_data_template ls st = (Inr data, st1) \<and>
           template_dim (map (\<lambda>l. shape (src_data st l)) ls) 0 =
             Inr (sum_list (map (\<lambda>l. last_dim (src_data st l)) ls))"
proof -
  have "\<forall>s\<in>set (map (\<lambda>l. shape (src_data st l)) ls). s \<noteq> [] \<and> last s \<noteq> None \<and> last s \<noteq> Some 0"
    using assms(2) by simp
  from template_dim_sum [OF this, of 0]
  have td: "template_dim (map (\<lambda>l. shape (src_data st l)) ls) 0 =
          Inr (sum_list (map (\<lambda>l. last_dim (src_data st l)) ls))"
    by (simp add: last_dim_def comp_def)
  then show ?thesis using assms(1)
    by (simp add: get_concat_sources_data_template_def src_data_def alloc_def Let_def)
qed

lemma tdaeb_cong:
  "batch_dim_axis a = batch_dim_axis b \<Longrightarrow> time_dim_axis a = time_dim_axis b \<Longrightarrow>
   time_dim_axis_excluding_batch dm a = time_dim_axis_excluding_batch dm b"
  by (simp add: time_dim_axis_excluding_batch_def split: option.splits)

lemma concat_sum:
  assumes ls: "ls = l0 # l1 # rest"
    and miss: "concat_sources_dropout_cache (networks st (network l0)) (map layer_id ls, 0) = None"
    and al: "\<forall>l\<in>set ls. layer_output l < next_addr st"
    and ok: "\<forall>l\<in>set ls. source_ok env (src_data st l) \<and>
                            sources_agree dm (src_data st l0) (src_data st l)"
    and sp: "size_placeholder (src_data st l0) \<noteq> None"
  shows "\<exists>data st'. concat_sources dm env ls st = (Inr data, st') \<and>
           dim (heap st' data) = Some (sum_list (map (\<lambda>l. last_dim (src_data st l)) ls)) \<and>
           last (shape (heap st' data)) = Some (sum_list (map (\<lambda>l. last_dim (src_data st l)) ls))"
proof -
  let ?n = "sum_list (map (\<lambda>l. last_dim (src_data st l)) ls)"
  have ls': "ls = l0 # (l1 # rest)" by (rule ls)
  have shp: "\<forall>l\<in>set ls. shape (src_data st l) \<noteq> [] \<and> last (shape (src_data st l)) \<noteq> None \<and>
                      last (shape (src_data st l)) \<noteq> Some 0"
    using ok by (simp add: source_ok_def)
  from template_succeeds [OF ls' shp]
  obtain data st1 where t: "get_concat_sources_data_template ls st = (Inr data, st1)"
    and td: "template_dim (map (\<lambda>l. shape (src_data st l)) ls) 0 = Inr ?n" by blast
  note tr = template_result [OF ls' al t]
  have same: "\<forall>l\<in>set ls. heap st1 (layer_output l) = src_data st l"
    using tr by (simp add: src_data_def)
  have dimn: "dim (heap st1 data) = Some ?n" "last (shape (heap st1 data)) = Some ?n"
    using tr td by auto
  have td_eq: "time_dim_axis_excluding_batch dm (heap st1 data) =
               time_dim_axis_excluding_batch dm (src_data st l0)"
    using tr by (auto intro!: tdaeb_cong)
  have "\<forall>d\<in>set (map (\<lambda>l. heap st1 (layer_output l)) ls).
          source_ok env d \<and> dtype d = dtype (heap st1 data) \<and>
          time_dim_axis_excluding_batch dm d = time_dim_axis_excluding_batch dm (heap st1 data) \<and>
          butlast (shape d) = butlast (shape (heap st1 data))"
    using ok same tr td_eq by (auto simp: sources_agree_def)
  from check_sources_pass [OF this]
  have chk: "check_sources dm env (heap st1 data) (map (\<lambda>l. heap st1 (layer_output l)) ls) = None" .
  have l0: "layer_output l0 \<noteq> data" "heap st1 (layer_output l0) = src_data st l0"
    using tr al ls same by auto
  obtain m where m: "size_placeholder (src_data st l0) = Some m" using sp by auto
  have fresh: "data \<noteq> next_addr st1" using tr by simp
  show ?thesis
    using miss t chk l0 m dimn fresh unfolding ls
    by (simp add: concat_sources_def Let_def build_def Data_copy_def alloc_def cache_store_def
             del: check_sources.simps)
qed

lemma concat_mismatch:
  assumes ls: "ls = l0 # l1 # rest"
    and miss: "concat_sources_dropout_cache (networks st (network l0)) (map layer_id ls, 0) = None"
    and al: "\<forall>l\<in>set ls. layer_output l < next_addr st"
    and bad: "\<exists>l\<in>set ls. \<not> sources_agree dm (src_data st l0) (src_data st l)"
  shows "\<exists>e st'. concat_sources dm env ls st = (Inl e, st')"
proof -
  have ls': "ls = l0 # (l1 # rest)" by (rule ls)
  obtain r st1 where t: "get_concat_sources_data_template ls st = (r, st1)"
    by (cases "get_concat_sources_data_template ls st")
  show ?thesis
  proof (cases r)
    case (Inl e)
    with t miss show ?thesis unfolding ls by (simp add: concat_sources_def)
  next
    case (Inr data)
    note tr = template_result [OF ls' al t [unfolded Inr]]
    have td_eq: "time_dim_axis_excluding_batch dm (heap st1 data) =
                 time_dim_axis_excluding_batch dm (src_data st l0)"
      using tr by (auto intro!: tdaeb_cong)
    from bad obtain l where l: "l \<in> set ls" "\<not> sources_agree dm (src_data st l0) (src_data st l)"
      by blast
    have hl: "heap st1 (layer_output l) = src_data st l" using tr l by (simp add: src_data_def)
    have "heap st1 (layer_output l) \<in> set (map (\<lambda>l. heap st1 (layer_output l)) ls)"
      using l by simp
    moreover have "dtype (heap st1 (layer_output l)) \<noteq> dtype (heap st1 data) \<or>
       time_dim_axis_excluding_batch dm (heap st1 (layer_output l)) \<noteq>
         time_dim_axis_excluding_batch dm (heap st1 data) \<or>
       butlast (shape (heap st1 (layer_output l))) \<noteq> butlast (shape (heap st1 data))"
      using l(2) tr td_eq hl by (auto simp: sources_agree_def)
    ultimately have "check_sources dm env (heap st1 data) (map (\<lambda>l. heap st1 (layer_output l)) ls) \<noteq> None"
      by (rule check_sources_mismatch)
    then obtain e where "check_sources dm env (heap st1 data) (map (\<lambda>l. heap st1 (layer_output l)) ls) = Some e"
      by auto
    with t Inr miss show ?thesis unfolding ls
      by (simp add: concat_sources_def del: check_sources.simps)
  qed
qed

lemma ex_heap [simp]:
  "heap (ex_state f) 0 = ex_data ''a'' 5 False"
  "heap (ex_state f) (Suc 0) = ex_data ''b'' 3 False"
  "heap (ex_state f) 2 = (ex_data ''c'' 3 False)\<lparr>dtype := ''int32''\<rparr>"
  by (simp_all add: ex_state_def)

lemma ex_src_simps [simp]:
  "layer_output (ex_src i) = i" "layer_id (ex_src i) = i" "network (ex_src i) = 0"
  by (simp_all add: ex_src_def ex_layer_def)

lemma concat_sources_frame:
  "concat_sources dm env ls st = (r, st') \<Longrightarrow>
   train_flag (networks st' n) = train_flag (networks st n) \<and>
   random_draws (networks st' n) = random_draws (networks st n) \<and>
   (\<forall>t\<in>set (ops st'). t \<in> set (ops st) \<or> (\<exists>args. t = TfOp ''concat'' args))"
  by (auto simp: concat_sources_def get_concat_sources_data_template_def Data_copy_def alloc_def
                 cache_store_def build_def Let_def
           split: list.splits option.splits sum.splits prod.splits)

text \<open>
  C1.  A single source's descriptor is returned as it is: the same object, with the store
  unchanged.  For two or more sources that are not yet in the cache, sources that pass
  the per-source assertions and agree with the first one in dtype, time axis and
  non-feature shape give a descriptor whose \<open>dim\<close> and last shape entry are the sum of
  the sources' last shape entries; a source that disagrees with the first one in any of
  the three makes the call fail.
\<close>

theorem concat_sources_identity_sum_mismatch:
  assumes "ls = l0 # l1 # rest"
    and "concat_sources_dropout_cache (networks st (network l0)) (map layer_id ls, 0) = None"
    and "\<forall>l\<in>set ls. layer_output l < next_addr st"
  shows "concat_sources dm env [l] st = (Inr (layer_output l), st) \<and>
         ((\<forall>l\<in>set ls. source_ok env (src_data st l) \<and>
                        sources_agree dm (src_data st l0) (src_data st l)) \<and>
          size_placeholder (src_data st l0) \<noteq> None \<longrightarrow>
          (\<exists>data st'. concat_sources dm env ls st = (Inr data, st') \<and>
             dim (heap st' data) = Some (sum_list (map (\<lambda>l. last_dim (src_data st l)) ls)) \<and>
             last (shape (heap st' data)) =
               Some (sum_list (map (\<lambda>l. last_dim (src_data st l)) ls)))) \<and>
         ((\<exists>l\<in>set ls. \<not> sources_agree dm (src_data st l0) (src_data st l)) \<longrightarrow>
          (\<exists>e st'. concat_sources dm env ls st = (Inl e, st')))"
proof (intro conjI impI)
  show "concat_sources dm env [l] st = (Inr (layer_output l), st)"
    by (simp add: concat_sources_def)
next
  assume "(\<forall>l\<in>set ls. source_ok env (src_data st l) \<and>
                        sources_agree dm (src_data st l0) (src_data st l)) \<and>
          size_placeholder (src_data st l0) \<noteq> None"
  then show "\<exists>data st'. concat_sources dm env ls st = (Inr data, st') \<and>
             dim (heap st' data) = Some (sum_list (map (\<lambda>l. last_dim (src_data st l)) ls)) \<and>
             last (shape (heap st' data)) =
               Some (sum_list (map (\<lambda>l. last_dim (src_data st l)) ls))"
    using concat_sum [OF assms] by blast
next
  assume "\<exists>l\<in>set ls. \<not> sources_agree dm (src_data st l0) (src_data st l)"
  then show "\<exists>e st'. concat_sources dm env ls st = (Inl e, st')"
    using concat_mismatch [OF assms] by blast
qed

theorem concat_sources_identity_sum_mismatch_witness:
  "concat_sources ex_dm ex_env3 [ex_src 0] (ex_state TrainTrue) = (Inr 0, ex_state TrainTrue) \<and>
   (\<exists>data st'. concat_sources ex_dm ex_env3 [ex_src 0, ex_src 1] (ex_state TrainTrue) = (Inr data, st') \<and>
      dim (heap st' data) = Some 8 \<and> last (shape (heap st' data)) = Some 8) \<and>
   (\<exists>e st'. concat_sources ex_dm ex_env3 [ex_src 0, ex_src 2] (ex_state TrainTrue) = (Inl e, st'))"
proof -
  let ?st = "ex_state TrainTrue"
  have miss: "\<And>k. concat_sources_dropout_cache (networks ?st (network (ex_src 0))) k = None"
    by (simp add: ex_state_def ex_net_def)
  have al: "\<And>ls. set ls \<subseteq> {ex_src 0, ex_src 1, ex_src 2} \<Longrightarrow> \<forall>l\<in>set ls. layer_output l < next_addr ?st"
    by (auto simp: ex_state_def)
  have ok: "\<forall>l\<in>set [ex_src 0, ex_src 1]. source_ok ex_env3 (src_data ?st l) \<and>
              sources_agree ex_dm (src_data ?st (ex_src 0)) (src_data ?st l)"
    by (simp add: source_ok_def sources_agree_def src_data_def ex_data_def ex_env3_def
                  time_dim_axis_excluding_batch_def ex_dm_def)
  have sp: "size_placeholder (src_data ?st (ex_src 0)) \<noteq> None"
    by (simp add: src_data_def ex_data_def)
  have bad: "\<exists>l\<in>set [ex_src 0, ex_src 2]. \<not> sources_agree ex_dm (src_data ?st (ex_src 0)) (src_data ?st l)"
    by (simp add: sources_agree_def src_data_def ex_data_def)
  have sum: "sum_list (map (\<lambda>l. last_dim (src_data ?st l)) [ex_src 0, ex_src 1]) = 8"
    by (simp add: last_dim_def src_data_def ex_data_def)
  from concat_sources_identity_sum_mismatch
         [of "[ex_src 0, ex_src 1]" "ex_src 0" "ex_src 1" "[]" ?st ex_dm ex_env3 "ex_src 0",
          OF refl miss al] ok sp sum
  have A: "concat_sources ex_dm ex_env3 [ex_src 0] ?st = (Inr 0, ?st)"
    and B: "\<exists>data st'. concat_sources ex_dm ex_env3 [ex_src 0, ex_src 1] ?st = (Inr data, st') \<and>
      dim (heap st' data) = Some 8 \<and> last (shape (heap st' data)) = Some 8"
    by simp_all
  from concat_sources_identity_sum_mismatch
         [of "[ex_src 0, ex_src 2]" "ex_src 0" "ex_src 2" "[]" ?st ex_dm ex_env3 "ex_src 0",
          OF refl miss al] bad
  have C: "\<exists>e st'. concat_sources ex_dm ex_env3 [ex_src 0, ex_src 2] ?st = (Inl e, st')"
    by simp
  from A B C show ?thesis by blast
qed

text \<open>
  C2.  In a network whose \<open>train_flag\<close> is \<open>False\<close>, concatenation with dropout is
  concatenation alone, whatever the rate: the same descriptor object and the same final
  store.  No value is drawn from the random generator, and every operation built is a
  concatenation.
\<close>

theorem dropout_disabled_when_not_training:
  assumes "train_flag (networks st (network l0)) = TrainFalse"
  shows "concat_sources_with_opt_dropout dm env (l0 # rest) dropout st =
           concat_sources dm env (l0 # rest) st \<and>
         (\<forall>n. random_draws
                 (networks (snd (concat_sources_with_opt_dropout dm env (l0 # rest) dropout st)) n) =
               random_draws (networks st n)) \<and>
         (\<forall>t\<in>set (ops (snd (concat_sources_with_opt_dropout dm env (l0 # rest) dropout st))).
            t \<in> set (ops st) \<or> (\<exists>args. t = TfOp ''concat'' args))"
proof -
  obtain r st' where res: "concat_sources dm env (l0 # rest) st = (r, st')"
    by (cases "concat_sources dm env (l0 # rest) st")
  note fr = concat_sources_frame [OF res]
  have "train_flag (networks st' (network l0)) = TrainFalse"
    using fr [of "network l0"] assms by simp
  with res have eq: "concat_sources_with_opt_dropout dm env (l0 # rest) dropout st = (r, st')"
    by (cases r) (simp_all add: concat_sources_with_opt_dropout_def)
  show ?thesis using eq res fr by simp
qed

theorem dropout_disabled_when_not_training_witness:
  "train_flag (networks (ex_state TrainFalse) (network (ex_src 0))) = TrainFalse \<and>
   concat_sources_with_opt_dropout ex_dm ex_env3 [ex_src 0, ex_src 1] (1/2) (ex_state TrainFalse) =
     concat_sources ex_dm ex_env3 [ex_src 0, ex_src 1] (ex_state TrainFalse) \<and>
   fst (concat_sources ex_dm ex_env3 [ex_src 0, ex_src 1] (ex_state TrainFalse)) = Inr 3"
proof -
  have tf: "train_flag (networks (ex_state TrainFalse) (network (ex_src 0))) = TrainFalse"
    by (simp add: ex_state_def ex_net_def)
  have r: "fst (concat_sources ex_dm ex_env3 [ex_src 0, ex_src 1] (ex_state TrainFalse)) = Inr 3"
    by (simp add: concat_sources_def get_concat_sources_data_template_def alloc_def Let_def
          ex_state_def ex_net_def ex_data_def ex_env3_def ex_dm_def build_def Data_copy_def
          cache_store_def time_dim_axis_excluding_batch_def ex_src_def ex_layer_def)
  from dropout_disabled_when_not_training [OF tf, of ex_dm ex_env3 "[ex_src 1]" "1/2"] tf r
  show ?thesis by simp
qed

subsection \<open>The cache holds copies\<close>

lemma cached_cache_store: "cached (cache_store net key c st) \<subseteq> insert c (cached st)"
  by (auto simp: cached_def cache_store_def split: if_splits)

lemma cached_cache_store_new:
  "concat_sources_dropout_cache (networks (cache_store net key c st) net) key = Some c"
  by (simp add: cache_store_def)

lemma cache_store_fields [simp]:
  "heap (cache_store net key c st) = heap st"
  "next_addr (cache_store net key c st) = next_addr st"
  "ops (cache_store net key c st) = ops st"
  by (simp_all add: cache_store_def)

lemma cached_cache_store_sup:
  assumes "concat_sources_dropout_cache (networks st net) key = None"
  shows "cached st \<subseteq> cached (cache_store net key c st)"
proof
  fix a assume "a \<in> cached st"
  then obtain n k where nk: "concat_sources_dropout_cache (networks st n) k = Some a"
    by (auto simp: cached_def)
  with assms have "\<not> (n = net \<and> k = key)" by auto
  with nk have "concat_sources_dropout_cache (networks (cache_store net key c st) n) k = Some a"
    by (auto simp: cache_store_def)
  then show "a \<in> cached (cache_store net key c st)"
    unfolding cached_def by blast
qed

lemma cached_cong: "networks st' = networks st \<Longrightarrow> cached st' = cached st"
  by (simp add: cached_def)

lemma template_state:
  assumes "get_concat_sources_data_template ls st = (Inr data, st1)"
  shows "data = next_addr st \<and>
         (\<exists>d. st1 = st\<lparr>heap := (heap st)(next_addr st := d), next_addr := Suc (next_addr st)\<rparr>)"
  using assms
  by (auto simp: get_concat_sources_data_template_def alloc_def Let_def
           split: list.splits sum.splits)

lemma concat_sources_hit:
  assumes "concat_sources_dropout_cache (networks st (network l0))
             (map layer_id (l0 # l1 # rest), 0) = Some c"
  shows "concat_sources dm env (l0 # l1 # rest) st =
           (Inr (next_addr st),
            st\<lparr>heap := (heap st)(next_addr st := heap st c), next_addr := Suc (next_addr st)\<rparr>)"
  using assms by (simp add: concat_sources_def Data_copy_def alloc_def)

lemma concat_sources_miss:
  assumes miss: "concat_sources_dropout_cache (networks st (network l0))
             (map layer_id (l0 # l1 # rest), 0) = None"
    and res: "concat_sources dm env (l0 # l1 # rest) st = (Inr r, st')"
  shows "r = next_addr st \<and>
         (\<exists>d g. st' = cache_store (network l0) (map layer_id (l0 # l1 # rest), 0)
                        (Suc (next_addr st))
                        (st\<lparr>ops := g,
                            heap := (heap st)(next_addr st := d, Suc (next_addr st) := d),
                            next_addr := Suc (Suc (next_addr st))\<rparr>))"
proof -
  obtain t st1 where t: "get_concat_sources_data_template (l0 # l1 # rest) st = (t, st1)"
    by (cases "get_concat_sources_data_template (l0 # l1 # rest) st")
  show ?thesis
  proof (cases t)
    case (Inl e)
    with t miss res show ?thesis by (simp add: concat_sources_def)
  next
    case (Inr data)
    from template_state [OF t [unfolded Inr]]
    obtain d0 where data: "data = next_addr st"
      and st1: "st1 = st\<lparr>heap := (heap st)(next_addr st := d0), next_addr := Suc (next_addr st)\<rparr>"
      by blast
    let ?chk = "check_sources dm env (heap st1 data)
                  (map (\<lambda>l. heap st1 (layer_output l)) (l0 # l1 # rest))"
    show ?thesis
    proof (cases ?chk)
      case (Some e)
      with t Inr miss res show ?thesis
        by (simp add: concat_sources_def del: check_sources.simps)
    next
      case None
      show ?thesis
      proof (cases "size_placeholder (heap st1 (layer_output l0))")
        case sp: None
        then have "layer_output l0 \<noteq> data \<or> layer_output l0 = data" by blast
        with t Inr miss res None sp show ?thesis unfolding data st1
          by (auto simp: concat_sources_def Let_def build_def Data_copy_def alloc_def
                   simp del: check_sources.simps split: option.splits if_splits)
      next
        case sp: (Some m)
        with t Inr miss res None show ?thesis unfolding data st1
          apply (simp add: concat_sources_def Let_def build_def Data_copy_def alloc_def
                   del: check_sources.simps split: option.splits if_splits)
          apply (auto simp: cache_store_def)
          done
      qed
    qed
  qed
qed

lemma cond_on_train_frame:
  assumes "cond_on_train net (fn_train dm net data dr) (fn_eval data) st = (r, st2)"
  shows "heap st2 = heap st \<and> next_addr st2 = next_addr st \<and>
         (\<forall>n. concat_sources_dropout_cache (networks st2 n) =
               concat_sources_dropout_cache (networks st n))"
  using assms
  by (auto simp: cond_on_train_def fn_train_def fn_eval_def build_def Let_def
           split: train_flag.splits option.splits sum.splits prod.splits if_splits)

lemma concat_postI:
  assumes "\<forall>c\<in>cached st'. c < next_addr st'" and "r < next_addr st'" and "r \<notin> cached st'"
    and "next_addr st \<le> next_addr st'" and "cached st \<subseteq> cached st'"
    and "\<forall>a. a < next_addr st \<and> a \<noteq> r \<longrightarrow> heap st' a = heap st a"
  shows "concat_post st st' r"
  using assms unfolding concat_post_def cache_wf_def by blast

lemma concat_sources_post:
  assumes wf: "cache_wf st" and src: "sources_wf st ls"
    and res: "concat_sources dm env ls st = (Inr r, st')"
  shows "concat_post st st' r \<and> (r < next_addr st \<longrightarrow> heap st' r = heap st r) \<and>
         (\<forall>l0 l1 rest. ls = l0 # l1 # rest \<longrightarrow>
            (\<exists>c. concat_sources_dropout_cache (networks st' (network l0)) (map layer_id ls, 0) = Some c \<and>
                 c \<noteq> r \<and> heap st' c = heap st' r))"
proof (cases ls)
  case Nil
  with res show ?thesis by (simp add: concat_sources_def)
next
  case (Cons l0 rest0)
  show ?thesis
  proof (cases rest0)
    case Nil
    with Cons res wf src show ?thesis
      by (auto simp: concat_sources_def concat_post_def sources_wf_def)
  next
    case (Cons l1 rest)
    note ls = \<open>ls = l0 # rest0\<close> [unfolded Cons]
    let ?key = "(map layer_id (l0 # l1 # rest), 0::real)"
    show ?thesis
    proof (cases "concat_sources_dropout_cache (networks st (network l0)) ?key")
      case (Some c)
      have c: "c \<in> cached st" using Some by (auto simp: cached_def)
      then have clt: "c < next_addr st" using wf by (simp add: cache_wf_def)
      note eq = trans [OF res [unfolded ls, symmetric] concat_sources_hit [OF Some, of dm env]]
      from eq have r: "r = next_addr st"
        and st': "st' = st\<lparr>heap := (heap st)(next_addr st := heap st c),
                          next_addr := Suc (next_addr st)\<rparr>" by blast+
      have cs: "cached st' = cached st" unfolding st' by (simp add: cached_def)
      have na: "next_addr st' = Suc (next_addr st)" by (simp add: st')
      have hp: "heap st' = (heap st)(next_addr st := heap st c)" by (simp add: st')
      have old: "\<forall>c\<in>cached st'. c < next_addr st"
        using cs wf unfolding cache_wf_def by simp
      have "concat_post st st' r"
        unfolding concat_post_def cache_wf_def na hp r using old cs by fastforce
      moreover have "concat_sources_dropout_cache (networks st' (network l0)) ?key = Some c \<and>
             c \<noteq> r \<and> heap st' c = heap st' r"
        using Some clt r by (simp add: st')
      ultimately show ?thesis using ls r by auto
    next
      case None
      from concat_sources_miss [OF None res [unfolded ls]]
      obtain d g where r: "r = next_addr st"
        and st': "st' = cache_store (network l0) ?key (Suc (next_addr st))
                        (st\<lparr>ops := g,
                            heap := (heap st)(next_addr st := d, Suc (next_addr st) := d),
                            next_addr := Suc (Suc (next_addr st))\<rparr>)" by blast
      let ?mid = "st\<lparr>ops := g,
                            heap := (heap st)(next_addr st := d, Suc (next_addr st) := d),
                            next_addr := Suc (Suc (next_addr st))\<rparr>"
      have mid: "cached ?mid = cached st" by (simp add: cached_def)
      have sub: "cached st' \<subseteq> insert (Suc (next_addr st)) (cached st)"
        unfolding st' using cached_cache_store [of "network l0" ?key "Suc (next_addr st)" ?mid] mid
        by simp
      have "concat_sources_dropout_cache (networks ?mid (network l0)) ?key = None"
        using None by simp
      from cached_cache_store_sup [OF this, of "Suc (next_addr st)"] mid
      have sup: "cached st \<subseteq> cached st'"
        unfolding st' by simp
      have na: "next_addr st' = Suc (Suc (next_addr st))" by (simp add: st')
      have hp: "heap st' = (heap st)(next_addr st := d, Suc (next_addr st) := d)"
        by (simp add: st')
      have old: "\<forall>c\<in>cached st'. c = Suc (next_addr st) \<or> c < next_addr st"
        using sub wf unfolding cache_wf_def by blast
      have "concat_post st st' r"
        unfolding concat_post_def cache_wf_def na hp r using old sup by fastforce
      moreover have "concat_sources_dropout_cache (networks st' (network l0)) ?key =
               Some (Suc (next_addr st)) \<and>
             Suc (next_addr st) \<noteq> r \<and> heap st' (Suc (next_addr st)) = heap st' r"
        using r by (simp add: st' cache_store_def)
      ultimately show ?thesis using ls r by auto
    qed
  qed
qed

lemma dropout_cases:
  assumes c1: "concat_sources dm env (l0 # rest) st = (Inr data, st1)"
    and res: "concat_sources_with_opt_dropout dm env (l0 # rest) dr0 st = (Inr r, st')"
    and dr: "dr = (if train_flag (networks st1 (network l0)) = TrainFalse then 0 else dr0)"
    and key: "key = (map layer_id (l0 # rest), dr)"
  shows "(dr = 0 \<and> r = data \<and> st' = st1) \<or>
         (dr \<noteq> 0 \<and>
          (\<exists>c. concat_sources_dropout_cache (networks st1 (network l0)) key = Some c \<and>
               r = next_addr st1 \<and>
               st' = st1\<lparr>heap := (heap st1)(next_addr st1 := heap st1 c),
                         next_addr := Suc (next_addr st1)\<rparr>)) \<or>
         (dr \<noteq> 0 \<and> concat_sources_dropout_cache (networks st1 (network l0)) key = None \<and>
          r = data \<and>
          (\<exists>st2 d. (\<forall>n. concat_sources_dropout_cache (networks st2 n) =
                          concat_sources_dropout_cache (networks st1 n)) \<and>
              st' = cache_store (network l0) key (next_addr st1)
                      (st2\<lparr>heap := (heap st1)(data := d, next_addr st1 := d),
                           next_addr := Suc (next_addr st1)\<rparr>)))"
proof (cases "dr = 0")
  case True
  with c1 res dr show ?thesis
    by (simp add: concat_sources_with_opt_dropout_def Let_def split: if_splits)
next
  case nz: False
  show ?thesis
  proof (cases "concat_sources_dropout_cache (networks st1 (network l0)) key")
    case (Some c)
    with c1 res dr key nz show ?thesis
      by (simp add: concat_sources_with_opt_dropout_def Let_def Data_copy_def alloc_def
               split: if_splits)
  next
    case None
    obtain t st2 where ct: "cond_on_train (network l0) (fn_train dm (network l0) data dr)
                               (fn_eval data) st1 = (t, st2)"
      by (cases "cond_on_train (network l0) (fn_train dm (network l0) data dr)
                               (fn_eval data) st1")
    note fr = cond_on_train_frame [OF ct]
    show ?thesis
    proof (cases t)
      case (Inl e)
      with c1 res dr key nz None ct show ?thesis
        by (simp add: concat_sources_with_opt_dropout_def Let_def split: if_splits)
    next
      case (Inr tt)
      let ?d = "(heap st1 data)\<lparr>placeholder := Some tt\<rparr>"
      have "r = data \<and>
            st' = cache_store (network l0) key (next_addr st1)
                      (st2\<lparr>heap := (heap st1)(data := ?d, next_addr st1 := ?d),
                           next_addr := Suc (next_addr st1)\<rparr>)"
        using c1 res dr key nz None ct Inr fr
        by (simp add: concat_sources_with_opt_dropout_def Let_def Data_copy_def alloc_def
                 split: if_splits)
      with nz None fr show ?thesis by blast
    qed
  qed
qed

lemma concat_post_apart:
  assumes "cache_wf st" and "concat_post st st' r"
  shows "cache_apart st st' r"
  using assms unfolding cache_apart_def concat_post_def cache_wf_def
  by (auto simp: subset_iff)

lemma dropout_post:
  assumes wf: "cache_wf st" and src: "sources_wf st ls"
    and res: "concat_sources_with_opt_dropout dm env ls dr0 st = (Inr r, st')"
  shows "concat_post st st' r \<and>
         (\<forall>l0 rest. ls = l0 # rest \<and> dr0 \<noteq> 0 \<and>
                    train_flag (networks st (network l0)) \<noteq> TrainFalse \<longrightarrow>
            (\<exists>c. concat_sources_dropout_cache (networks st' (network l0)) (map layer_id ls, dr0) = Some c \<and>
                 c \<noteq> r \<and> heap st' c = heap st' r))"
proof (cases ls)
  case Nil
  with res show ?thesis by (simp add: concat_sources_with_opt_dropout_def)
next
  case (Cons l0 rest)
  obtain r1 st1 where c1': "concat_sources dm env (l0 # rest) st = (r1, st1)"
    by (cases "concat_sources dm env (l0 # rest) st")
  have "\<exists>data. r1 = Inr data"
    using res c1' Cons by (cases r1) (simp_all add: concat_sources_with_opt_dropout_def)
  then obtain data where c1: "concat_sources dm env (l0 # rest) st = (Inr data, st1)"
    using c1' by blast
  define dr where "dr = (if train_flag (networks st1 (network l0)) = TrainFalse then 0 else dr0)"
  define key where "key = (map layer_id (l0 # rest), dr)"
  from concat_sources_post [OF wf src [unfolded Cons] c1]
  have p1: "concat_post st st1 data"
    and keep1: "data < next_addr st \<longrightarrow> heap st1 data = heap st data" by blast+
  have tf: "train_flag (networks st1 (network l0)) = train_flag (networks st (network l0))"
    using concat_sources_frame [OF c1] by blast
  have wf1: "cache_wf st1" and d1: "data < next_addr st1" "data \<notin> cached st1"
    and mono: "next_addr st \<le> next_addr st1" and sub1: "cached st \<subseteq> cached st1"
    and same1: "\<forall>a. a < next_addr st \<and> a \<noteq> data \<longrightarrow> heap st1 a = heap st a"
    using p1 by (simp_all add: concat_post_def)
  from dropout_cases [OF c1 res [unfolded Cons] dr_def key_def]
  consider (zero) "dr = 0" "r = data" "st' = st1"
    | (hit) c where "dr \<noteq> 0" "concat_sources_dropout_cache (networks st1 (network l0)) key = Some c"
        "r = next_addr st1"
        "st' = st1\<lparr>heap := (heap st1)(next_addr st1 := heap st1 c),
                   next_addr := Suc (next_addr st1)\<rparr>"
    | (miss) st2 d where "dr \<noteq> 0"
        "concat_sources_dropout_cache (networks st1 (network l0)) key = None" "r = data"
        "\<forall>n. concat_sources_dropout_cache (networks st2 n) =
             concat_sources_dropout_cache (networks st1 n)"
        "st' = cache_store (network l0) key (next_addr st1)
                 (st2\<lparr>heap := (heap st1)(data := d, next_addr st1 := d),
                      next_addr := Suc (next_addr st1)\<rparr>)"
    by blast
  then show ?thesis
  proof cases
    case zero
    then have "dr0 = 0 \<or> train_flag (networks st (network l0)) = TrainFalse"
      using tf by (simp add: dr_def split: if_splits)
    with zero p1 Cons show ?thesis by auto
  next
    case hit
    have c: "c \<in> cached st1" using hit(2) unfolding cached_def by blast
    then have clt: "c < next_addr st1" using wf1 by (simp add: cache_wf_def)
    have cs: "cached st' = cached st1" unfolding hit(4) by (simp add: cached_def)
    have na: "next_addr st' = Suc (next_addr st1)" by (simp add: hit(4))
    have hp: "heap st' = (heap st1)(next_addr st1 := heap st1 c)" by (simp add: hit(4))
    have old: "\<forall>c\<in>cached st'. c < next_addr st1"
      using cs wf1 unfolding cache_wf_def by simp
    have same: "\<forall>a. a < next_addr st \<longrightarrow> heap st1 a = heap st a"
      using same1 keep1 by blast
    have post: "concat_post st st' r"
    proof (rule concat_postI)
      show "\<forall>c\<in>cached st'. c < next_addr st'" using old na by auto
      show "r < next_addr st'" using na hit(3) by simp
      show "r \<notin> cached st'" using old hit(3) by auto
      show "next_addr st \<le> next_addr st'" using mono na by simp
      show "cached st \<subseteq> cached st'" using sub1 cs by simp
      show "\<forall>a. a < next_addr st \<and> a \<noteq> r \<longrightarrow> heap st' a = heap st a"
        using same mono by (simp add: hp hit(3))
    qed
    have "concat_sources_dropout_cache (networks st' (network l0)) key = Some c \<and>
          c \<noteq> r \<and> heap st' c = heap st' r"
      using hit(2,3) clt by (simp add: hit(4))
    moreover have "dr0 \<noteq> 0 \<and> train_flag (networks st (network l0)) \<noteq> TrainFalse \<longrightarrow> dr = dr0"
      using tf by (simp add: dr_def)
    ultimately show ?thesis using post Cons by (auto simp: key_def)
  next
    case miss
    let ?mid = "st2\<lparr>heap := (heap st1)(data := d, next_addr st1 := d),
                      next_addr := Suc (next_addr st1)\<rparr>"
    have mid: "cached ?mid = cached st1" using miss(4) by (simp add: cached_def)
    have sub: "cached st' \<subseteq> insert (next_addr st1) (cached st1)"
      unfolding miss(5) using cached_cache_store [of "network l0" key "next_addr st1" ?mid] mid
      by simp
    have "concat_sources_dropout_cache (networks ?mid (network l0)) key = None"
      using miss(2,4) by simp
    from cached_cache_store_sup [OF this, of "next_addr st1"] mid
    have sup: "cached st1 \<subseteq> cached st'" unfolding miss(5) by simp
    have na: "next_addr st' = Suc (next_addr st1)" by (simp add: miss(5))
    have hp: "heap st' = (heap st1)(data := d, next_addr st1 := d)" by (simp add: miss(5))
    have old: "\<forall>c\<in>cached st'. c = next_addr st1 \<or> (c < next_addr st1 \<and> c \<noteq> data)"
      using sub wf1 d1 unfolding cache_wf_def by blast
    have post: "concat_post st st' r"
    proof (rule concat_postI)
      show "\<forall>c\<in>cached st'. c < next_addr st'" using old na by auto
      show "r < next_addr st'" using na miss(3) d1 by simp
      show "r \<notin> cached st'" using old miss(3) d1 by auto
      show "next_addr st \<le> next_addr st'" using mono na by simp
      show "cached st \<subseteq> cached st'" using sub1 sup by blast
      show "\<forall>a. a < next_addr st \<and> a \<noteq> r \<longrightarrow> heap st' a = heap st a"
        using same1 mono by (simp add: hp miss(3))
    qed
    have "concat_sources_dropout_cache (networks st' (network l0)) key = Some (next_addr st1) \<and>
          next_addr st1 \<noteq> r \<and> heap st' (next_addr st1) = heap st' r"
      using miss(3) d1 by (simp add: miss(5) cache_store_def)
    moreover have "dr0 \<noteq> 0 \<and> train_flag (networks st (network l0)) \<noteq> TrainFalse \<longrightarrow> dr = dr0"
      using tf by (simp add: dr_def)
    ultimately show ?thesis using post Cons by (auto simp: key_def)
  qed
qed

text \<open>
  C8.  In a well-formed store, after \<open>concat_sources\<close> or
  \<open>concat_sources_with_opt_dropout\<close> has returned a descriptor, that descriptor is not
  an object of the cache: writing anything to it leaves every cached descriptor as it
  is, and what was cached before is still cached and unchanged.  Whenever a cache key
  is involved (two or more sources; a dropout rate that is applied), the cache has an
  entry for the key after the call that is another object than the descriptor returned
  and has the same contents: on a miss the entry is a copy of the descriptor returned,
  on a hit the descriptor returned is a fresh copy of the entry.
\<close>

theorem cache_entries_are_private_copies:
  assumes "cache_wf st" and "sources_wf st ls"
  shows "(concat_sources dm env ls st = (Inr r, st') \<longrightarrow>
            cache_apart st st' r \<and>
            (\<forall>l0 l1 rest. ls = l0 # l1 # rest \<longrightarrow>
               (\<exists>c. concat_sources_dropout_cache (networks st' (network l0))
                      (map layer_id ls, 0) = Some c \<and>
                    c \<noteq> r \<and> heap st' c = heap st' r))) \<and>
         (concat_sources_with_opt_dropout dm env ls dropout st = (Inr r2, st2) \<longrightarrow>
            cache_apart st st2 r2 \<and>
            (\<forall>l0 rest. ls = l0 # rest \<and> dropout \<noteq> 0 \<and>
                       train_flag (networks st (network l0)) \<noteq> TrainFalse \<longrightarrow>
               (\<exists>c. concat_sources_dropout_cache (networks st2 (network l0))
                      (map layer_id ls, dropout) = Some c \<and>
                    c \<noteq> r2 \<and> heap st2 c = heap st2 r2)))"
proof (intro conjI impI)
  assume res: "concat_sources dm env ls st = (Inr r, st')"
  from concat_sources_post [OF assms res]
  have post: "concat_post st st' r"
    and key: "\<forall>l0 l1 rest. ls = l0 # l1 # rest \<longrightarrow>
               (\<exists>c. concat_sources_dropout_cache (networks st' (network l0))
                      (map layer_id ls, 0) = Some c \<and>
                    c \<noteq> r \<and> heap st' c = heap st' r)" by blast+
  show "cache_apart st st' r" using assms(1) post by (rule concat_post_apart)
  show "\<forall>l0 l1 rest. ls = l0 # l1 # rest \<longrightarrow>
               (\<exists>c. concat_sources_dropout_cache (networks st' (network l0))
                      (map layer_id ls, 0) = Some c \<and>
                    c \<noteq> r \<and> heap st' c = heap st' r)" by (rule key)
next
  assume res: "concat_sources_with_opt_dropout dm env ls dropout st = (Inr r2, st2)"
  from dropout_post [OF assms res]
  have post: "concat_post st st2 r2"
    and key: "\<forall>l0 rest. ls = l0 # rest \<and> dropout \<noteq> 0 \<and>
                       train_flag (networks st (network l0)) \<noteq> TrainFalse \<longrightarrow>
               (\<exists>c. concat_sources_dropout_cache (networks st2 (network l0))
                      (map layer_id ls, dropout) = Some c \<and>
                    c \<noteq> r2 \<and> heap st2 c = heap st2 r2)" by blast+
  show "cache_apart st st2 r2" using assms(1) post by (rule concat_post_apart)
  show "\<forall>l0 rest. ls = l0 # rest \<and> dropout \<noteq> 0 \<and>
                       train_flag (networks st (network l0)) \<noteq> TrainFalse \<longrightarrow>
               (\<exists>c. concat_sources_dropout_cache (networks st2 (network l0))
                      (map layer_id ls, dropout) = Some c \<and>
                    c \<noteq> r2 \<and> heap st2 c = heap st2 r2)" by (rule key)
qed

lemma ex_cached: "cached (ex_state f) = {}"
  by (simp add: cached_def ex_state_def ex_net_def)

theorem cache_entries_are_private_copies_witness:
  "cache_wf (ex_state TrainTrue) \<and> sources_wf (ex_state TrainTrue) [ex_src 0, ex_src 1] \<and>
   (\<exists>st'. concat_sources_with_opt_dropout ex_dm ex_env3 [ex_src 0, ex_src 1] (1/2)
             (ex_state TrainTrue) = (Inr 3, st') \<and>
      cache_apart (ex_state TrainTrue) st' 3 \<and>
      (\<exists>c. concat_sources_dropout_cache (networks st' 0) ([0, 1], 1/2) = Some c \<and>
           c \<noteq> 3 \<and> heap st' c = heap st' 3))"
proof -
  let ?st = "ex_state TrainTrue"
  let ?ls = "[ex_src 0, ex_src 1]"
  have wf: "cache_wf ?st" by (simp add: cache_wf_def ex_cached)
  have src: "sources_wf ?st ?ls"
    by (simp add: sources_wf_def ex_cached) (simp add: ex_state_def)
  have fst3: "fst (concat_sources_with_opt_dropout ex_dm ex_env3 ?ls (1/2) ?st) = Inr 3"
    by (simp add: concat_sources_with_opt_dropout_def concat_sources_def
          get_concat_sources_data_template_def alloc_def Let_def
          ex_state_def ex_net_def ex_data_def ex_env3_def ex_dm_def build_def Data_copy_def
          cache_store_def time_dim_axis_excluding_batch_def ex_src_def ex_layer_def
          cond_on_train_def fn_train_def fn_eval_def)
  then obtain st' where
    res: "concat_sources_with_opt_dropout ex_dm ex_env3 ?ls (1/2) ?st = (Inr 3, st')"
    by (cases "concat_sources_with_opt_dropout ex_dm ex_env3 ?ls (1/2) ?st") auto
  have tf: "train_flag (networks ?st (network (ex_src 0))) \<noteq> TrainFalse"
    by (simp add: ex_state_def ex_net_def)
  from cache_entries_are_private_copies
         [OF wf src, of ex_dm ex_env3 0 ?st "1/2" 3 st'] res tf
  have "cache_apart ?st st' 3 \<and>
      (\<exists>c. concat_sources_dropout_cache (networks st' 0) ([0, 1], 1/2) = Some c \<and>
           c \<noteq> 3 \<and> heap st' c = heap st' 3)"
    by simp
  with wf src res show ?thesis by blast
qed

subsection \<open>The slice layer's lengths\<close>

lemma map_of_update_other: "j \<noteq> t \<Longrightarrow> map_of (AList.update t v m) j = map_of m j"
  by (simp add: update_conv')

lemma map_of_update_same: "map_of (AList.update t v m) t = Some v"
  by (simp add: update_conv')

lemma int32_id: "- (2 ^ 31) \<le> i \<Longrightarrow> i < 2 ^ 31 \<Longrightarrow> int32 i = i"
  by (simp add: int32_def)

lemma floor_div_bounds:
  fixes v s :: int
  assumes "0 \<le> v" and "s \<noteq> 0"
  shows "- v \<le> v div s" and "v div s \<le> v"
proof -
  show "v div s \<le> v"
  proof (cases "0 < s")
    case True
    then have "v div s \<le> v div 1" using assms(1) by (intro zdiv_mono2) simp_all
    then show ?thesis by simp
  next
    case False
    then have "s < 0" using assms(2) by simp
    then have "v div s \<le> 0" using assms(1) by (simp add: div_nonneg_neg_le0)
    then show ?thesis using assms(1) by simp
  qed
  show "- v \<le> v div s"
  proof (cases "0 < s")
    case True
    then have "0 \<le> v div s" using assms(1) by (simp add: pos_imp_zdiv_nonneg_iff)
    then show ?thesis using assms(1) by simp
  next
    case False
    then have neg: "0 < - s" using assms(2) by simp
    have e: "v div s = (- v) div (- s)" by simp
    show ?thesis
    proof (cases "v = 0")
      case True
      then show ?thesis by simp
    next
      case False
      then have "- v < 0" using assms(1) by simp
      then have "(- v) div 1 \<le> (- v) div (- s)" using neg by (intro zdiv_mono2_neg) simp_all
      then show ?thesis unfolding e by simp
    qed
  qed
qed

lemma clamped_in_range:
  fixes n k :: int
  assumes "0 \<le> n" and "n < 2 ^ 31" and "0 < k" and "k < 2 ^ 31"
  shows "max 0 (int32 (n - int32 k)) = max 0 (n - k)"
    and "0 \<le> max 0 (n - k)" and "max 0 (n - k) < 2 ^ 31"
proof -
  have k: "int32 k = k" using assms by (simp add: int32_id)
  have "int32 (n - k) = n - k" using assms by (simp add: int32_id)
  with k show "max 0 (int32 (n - int32 k)) = max 0 (n - k)" by simp
  show "0 \<le> max 0 (n - k)" by simp
  show "max 0 (n - k) < 2 ^ 31" using assms by simp
qed

lemma stepped_in_range:
  fixes v s :: int
  assumes "0 \<le> v" and "v < 2 ^ 31" and "s \<noteq> 0"
  shows "int32 (v div s) = v div s"
  using floor_div_bounds [OF assms(1,3)] assms(2) by (intro int32_id) simp_all

text \<open>
  C6.  A slice of the time axis from \<open>slice_start = k > 0\<close>, with no \<open>slice_end\<close>, on
  an input whose dictionary has the lengths of the time axis, where \<open>k\<close>, the step and
  the lengths are values of the engine's 32-bit integers and no length is negative.  With
  no step or a step that is not zero the layer is built, and its output's dictionary has
  for the time axis a tensor whose value for an example of length \<open>n\<close> is
  \<open>max 0 (n - k)\<close>, never negative, floor-divided by the step when one is given; the
  other entries of the dictionary are unchanged, and the input descriptor shares the
  dictionary.  With the step zero the construction fails with a \<^verbatim>\<open>ValueError\<close>.
\<close>

theorem slice_start_clamps_lengths:
  assumes "SliceLayer_get_axis dm axis axis_kind input_data = Inr (Some a)"
    and "time_dim_axis input_data = Some a"
    and "time_dim_axis_excluding_batch dm input_data = Some t"
    and "size_placeholder input_data = Some m" and "map_of m t = Some len"
    and "placeholder input_data \<noteq> None"
    and "0 < k" and "k < 2 ^ 31"
    and "run env shp len = Some (Vec lens)"
    and "\<forall>n\<in>set lens. 0 \<le> n \<and> n < 2 ^ 31"
    and "\<forall>s. step = Some s \<longrightarrow> - (2 ^ 31) \<le> s \<and> s < 2 ^ 31"
  shows "(step \<noteq> Some 0 \<longrightarrow>
          (\<exists>out' inp' m' len'.
             SliceLayer_init dm axis axis_kind (Some k) None step input_data out =
               Inr (out', inp') \<and>
             size_placeholder out' = Some m' \<and> size_placeholder inp' = Some m' \<and>
             map_of m' t = Some len' \<and>
             run env shp len' = Some (Vec (map (sliced_length k step) lens)) \<and>
             (\<forall>j. j \<noteq> t \<longrightarrow> map_of m' j = map_of m j) \<and>
             (\<forall>n\<in>set lens. 0 \<le> sliced_length k None n))) \<and>
         (step = Some 0 \<longrightarrow>
          SliceLayer_init dm axis axis_kind (Some k) None step input_data out = Inl ValueError)"
proof (intro conjI impI)
  obtain p where p: "placeholder input_data = Some p" using assms(6) by auto
  let ?v1 = "TfMaximum (PyInt 0) (TfSub len (PyInt k))"
  let ?m1 = "AList.update t ?v1 m"
  have c: "\<And>n. n \<in> set lens \<Longrightarrow> max 0 (int32 (n - int32 k)) = max 0 (n - k)"
    using clamped_in_range(1) assms(7,8,10) by blast
  have z: "int32 0 = 0" by (simp add: int32_def)
  have r1: "run env shp ?v1 = Some (Vec (map (\<lambda>n. max 0 (n - k)) lens))"
    using assms(9) c by (simp add: z)
  {
    assume zero: "step = Some 0"
    have sz: "SliceLayer_sizes dm a (Some k) None step input_data = Inr (Some ?m1)"
      using assms(2,3,4,5,7) zero
      by (simp add: SliceLayer_sizes_def if_given_def and_then_def update_len_def)
    show "SliceLayer_init dm axis axis_kind (Some k) None step input_data out = Inl ValueError"
      using assms(1) sz p zero by (simp add: SliceLayer_init_def)
  }
  assume nz: "step \<noteq> Some 0"
  show "\<exists>out' inp' m' len'.
             SliceLayer_init dm axis axis_kind (Some k) None step input_data out =
               Inr (out', inp') \<and>
             size_placeholder out' = Some m' \<and> size_placeholder inp' = Some m' \<and>
             map_of m' t = Some len' \<and>
             run env shp len' = Some (Vec (map (sliced_length k step) lens)) \<and>
             (\<forall>j. j \<noteq> t \<longrightarrow> map_of m' j = map_of m j) \<and>
             (\<forall>n\<in>set lens. 0 \<le> sliced_length k None n)"
  proof (cases step)
    case None
    have sz: "SliceLayer_sizes dm a (Some k) None step input_data = Inr (Some ?m1)"
      using assms(2,3,4,5,7) None
      by (simp add: SliceLayer_sizes_def if_given_def and_then_def update_len_def)
    have sl: "sliced_length k step = (\<lambda>n. max 0 (n - k))"
      using None by (auto simp: sliced_length_def)
    show ?thesis
      using assms(1) sz p r1 None
      by (simp add: SliceLayer_init_def sl map_of_update_same map_of_update_other
            sliced_length_def)
  next
    case (Some s)
    with nz have s0: "s \<noteq> 0" by simp
    have sr: "int32 s = s" using assms(11) Some by (simp add: int32_id)
    let ?v2 = "TfFloorDiv ?v1 (PyInt s)"
    let ?m2 = "AList.update t ?v2 ?m1"
    have sz: "SliceLayer_sizes dm a (Some k) None step input_data = Inr (Some ?m2)"
      using assms(2,3,4,5,7) Some s0
      by (simp add: SliceLayer_sizes_def if_given_def and_then_def update_len_def
            map_of_update_same)
    have d: "\<And>n. n \<in> set lens \<Longrightarrow> int32 (max 0 (n - k) div s) = max 0 (n - k) div s"
    proof -
      fix n assume n: "n \<in> set lens"
      have "0 \<le> max 0 (n - k)" "max 0 (n - k) < 2 ^ 31"
        using clamped_in_range(2,3) assms(7,8,10) n by blast+
      then show "int32 (max 0 (n - k) div s) = max 0 (n - k) div s"
        using s0 by (rule stepped_in_range)
    qed
    have r2: "run env shp ?v2 = Some (Vec (map (sliced_length k step) lens))"
      using r1 s0 d Some by (simp add: sliced_length_def sr)
    show ?thesis
      using assms(1) sz p r2 Some s0
      by (simp add: SliceLayer_init_def map_of_update_same map_of_update_other
            sliced_length_def)
  qed
qed

theorem slice_start_clamps_lengths_witness:
  "(\<exists>out' inp' m' len'.
     SliceLayer_init ex_dm None (Some ''t'') (Some 7) None (Some 2)
       (ex_data ''a'' 5 False) (ex_data ''out'' 5 False) = Inr (out', inp') \<and>
     size_placeholder out' = Some m' \<and> size_placeholder inp' = Some m' \<and>
     map_of m' 0 = Some len' \<and>
     run ex_lens (\<lambda>t i. 0) len' = Some (Vec [0, 1]) \<and>
     sliced_length 7 None 5 = 0 \<and> sliced_length 7 None 9 = 2) \<and>
   SliceLayer_init ex_dm None (Some ''t'') (Some 7) None (Some 0)
     (ex_data ''a'' 5 False) (ex_data ''out'' 5 False) = Inl ValueError"
proof -
  let ?inp = "ex_data ''a'' 5 False"
  have ax: "SliceLayer_get_axis ex_dm None (Some ''t'') ?inp = Inr (Some 1)"
    by (simp add: SliceLayer_get_axis_def upper_def ex_data_def)
  have ta: "time_dim_axis ?inp = Some 1" by (simp add: ex_data_def)
  have t: "time_dim_axis_excluding_batch ex_dm ?inp = Some 0"
    by (simp add: time_dim_axis_excluding_batch_def ex_dm_def ex_data_def)
  have sp: "size_placeholder ?inp = Some [(0, Handle ''a_len'')]" by (simp add: ex_data_def)
  have len: "map_of [(0::int, Handle ''a_len'')] 0 = Some (Handle ''a_len'')" by simp
  have ph: "placeholder ?inp \<noteq> None" by (simp add: ex_data_def)
  have k: "(0::int) < 7" "(7::int) < 2 ^ 31" by simp_all
  have rn: "run ex_lens (\<lambda>t i. 0) (Handle ''a_len'') = Some (Vec [5, 9])"
    by (simp add: ex_lens_def int32_def)
  have rg: "\<forall>n\<in>set [5, 9 :: int]. 0 \<le> n \<and> n < 2 ^ 31" by simp
  have s2: "\<forall>s. Some (2::int) = Some s \<longrightarrow> - (2 ^ 31) \<le> s \<and> s < 2 ^ 31" by simp
  have s0: "\<forall>s. Some (0::int) = Some s \<longrightarrow> - (2 ^ 31) \<le> s \<and> s < 2 ^ 31" by simp
  have sl: "sliced_length 7 None 5 = 0" "sliced_length 7 None 9 = 2"
    "map (sliced_length 7 (Some 2)) [5, 9] = [0, 1]"
    by (simp_all add: sliced_length_def)
  from slice_start_clamps_lengths [OF ax ta t sp len ph k rn rg s2, of "ex_data ''out'' 5 False"]
  have A: "\<exists>out' inp' m' len'.
     SliceLayer_init ex_dm None (Some ''t'') (Some 7) None (Some 2)
       (ex_data ''a'' 5 False) (ex_data ''out'' 5 False) = Inr (out', inp') \<and>
     size_placeholder out' = Some m' \<and> size_placeholder inp' = Some m' \<and>
     map_of m' 0 = Some len' \<and>
     run ex_lens (\<lambda>t i. 0) len' = Some (Vec [0, 1]) \<and>
     sliced_length 7 None 5 = 0 \<and> sliced_length 7 None 9 = 2"
    unfolding sl by auto
  from slice_start_clamps_lengths [OF ax ta t sp len ph k rn rg s0, of "ex_data ''out'' 5 False"]
  have B: "SliceLayer_init ex_dm None (Some ''t'') (Some 7) None (Some 0)
     (ex_data ''a'' 5 False) (ex_data ''out'' 5 False) = Inl ValueError"
    by simp
  from A B show ?thesis by blast
qed

subsection \<open>The reduce layer's lengths\<close>

lemma dict_of_items_acc:
  "distinct (map fst acc) \<Longrightarrow>
   distinct (map fst (foldl (\<lambda>d (k, v). AList.update k v d) acc items)) \<and>
   map_of (foldl (\<lambda>d (k, v). AList.update k v d) acc items) =
     map_of acc ++ map_of (rev items)"
proof (induction items arbitrary: acc)
  case Nil
  then show ?case by simp
next
  case (Cons kv items)
  obtain k v where kv: "kv = (k, v)" by (cases kv)
  have d: "distinct (map fst (AList.update k v acc))"
    using Cons.prems by (simp add: distinct_update)
  from Cons.IH [OF d] show ?case
    by (simp add: kv update_conv' map_add_upd_left fun_eq_iff map_add_def split: option.splits)
qed

lemma dict_of_items_distinct:
  assumes "distinct (map fst items)"
  shows "distinct (map fst (dict_of_items items))"
    and "map_of (dict_of_items items) = map_of items"
proof -
  have e: "distinct (map fst ([] :: (int \<times> tensor) list))" by simp
  from dict_of_items_acc [OF e, of items]
  show "distinct (map fst (dict_of_items items))" by (simp add: dict_of_items_def)
  have "map_of (rev items) = map_of items"
    using assms by (simp add: map_of_inject_set distinct_map)
  with dict_of_items_acc [OF e, of items]
  show "map_of (dict_of_items items) = map_of items" by (simp add: dict_of_items_def)
qed

lemma renumber_key:
  fixes i j k :: int
  shows "j \<noteq> i \<Longrightarrow>
         ((if j < i then j else j - 1) = k) = (if k < i then j = k else j = k + 1)"
  by presburger

lemma renumber_map_of:
  fixes xs :: "(int \<times> 'a) list"
  shows "i \<notin> fst ` set xs \<Longrightarrow>
   map_of (map (\<lambda>(j, s). (if j < i then j else j - 1, s)) xs) k =
     (if k < i then map_of xs k else map_of xs (k + 1))"
proof (induction xs)
  case Nil
  then show ?case by simp
next
  case (Cons a xs)
  obtain j s where a: "a = (j, s)" by (cases a)
  have ji: "j \<noteq> i" and ni: "i \<notin> fst ` set xs" using Cons.prems by (auto simp: a)
  note key = renumber_key [OF ji, of k]
  show ?case
  proof (cases "(if j < i then j else j - 1) = k")
    case True
    with key have "if k < i then j = k else j = k + 1" by simp
    with True show ?thesis by (simp add: a split: if_splits)
  next
    case False
    with key have "\<not> (if k < i then j = k else j = k + 1)" by simp
    with False Cons.IH [OF ni] show ?thesis by (simp add: a split: if_splits)
  qed
qed

lemma renumber_distinct:
  fixes xs :: "(int \<times> 'a) list"
  shows "i \<notin> fst ` set xs \<Longrightarrow> distinct (map fst xs) \<Longrightarrow>
   distinct (map fst (map (\<lambda>(j, s). (if j < i then j else j - 1, s)) xs))"
proof (induction xs)
  case Nil
  then show ?case by simp
next
  case (Cons a xs)
  obtain j s where a: "a = (j, s)" by (cases a)
  have ji: "j \<noteq> i" and ni: "i \<notin> fst ` set xs" and nj: "j \<notin> fst ` set xs"
    and dx: "distinct (map fst xs)"
    using Cons.prems by (auto simp: a)
  have "(if j < i then j else j - 1) \<notin>
          fst ` set (map (\<lambda>(j, s). (if j < i then j else j - 1, s)) xs)"
  proof
    assume "(if j < i then j else j - 1) \<in>
              fst ` set (map (\<lambda>(j, s). (if j < i then j else j - 1, s)) xs)"
    then obtain j' s' where m: "(j', s') \<in> set xs"
      and eq: "(if j < i then j else j - 1) = (if j' < i then j' else j' - 1)"
      by (auto split: if_splits)
    have "j' \<noteq> i" using m ni by force
    with eq ji have "j = j'" by presburger
    with m nj show False by force
  qed
  with Cons.IH [OF ni dx] show ?case by (simp add: a image_image)
qed

lemma drop_axis_spec:
  assumes "distinct (map fst d)"
  shows "map_of (drop_axis i d) = remove_and_renumber i (map_of d)"
    and "distinct (map fst (drop_axis i d))"
proof -
  let ?d = "if map_of d i \<noteq> None then AList.delete i d else d"
  have ni: "i \<notin> fst ` set ?d"
    by (auto simp: AList.delete_eq map_of_eq_None_iff)
  have dd: "distinct (map fst ?d)" using assms by (simp add: distinct_delete)
  have md: "\<And>k. k \<noteq> i \<Longrightarrow> map_of ?d k = map_of d k"
    by (simp add: delete_conv')
  let ?items = "map (\<lambda>(j, s). (if j < i then j else j - 1, s)) ?d"
  have di: "distinct (map fst ?items)" by (rule renumber_distinct [OF ni dd])
  show "distinct (map fst (drop_axis i d))"
    unfolding drop_axis_def by (rule dict_of_items_distinct(1) [OF di])
  have "map_of (drop_axis i d) = map_of ?items"
    unfolding drop_axis_def by (rule dict_of_items_distinct(2) [OF di])
  also have "\<dots> = remove_and_renumber i (map_of d)"
  proof
    fix k
    show "map_of ?items k = remove_and_renumber i (map_of d) k"
      unfolding renumber_map_of [OF ni] remove_and_renumber_def
      using md [of k] md [of "k + 1"] by auto
  qed
  finally show "map_of (drop_axis i d) = remove_and_renumber i (map_of d)" .
qed

lemma drop_axes_spec:
  "distinct (map fst d) \<Longrightarrow>
   map_of (foldl (\<lambda>d i. drop_axis i d) d is) =
     foldl (\<lambda>m i. remove_and_renumber i m) (map_of d) is \<and>
   distinct (map fst (foldl (\<lambda>d i. drop_axis i d) d is))"
  by (induction "is" arbitrary: d) (simp_all add: drop_axis_spec)

lemma keep_axis_spec:
  "map_of (keep_axis i d) k =
     (if k = i \<and> map_of d k \<noteq> None then Some (PyInt 1) else map_of d k)"
  by (auto simp: keep_axis_def update_conv')

lemma keep_axes_spec:
  "map_of (foldl (\<lambda>d i. keep_axis i d) d is) k =
     (if k \<in> set is \<and> map_of d k \<noteq> None then Some (PyInt 1) else map_of d k)"
  by (induction "is" arbitrary: d) (auto simp: keep_axis_spec)

text \<open>
  The dictionary operation of the reduce layer, in the numbers the code compares.  A
  reduce layer whose axis argument resolves to the axes \<open>axes\<close> succeeds on a
  dense input with a dictionary of lengths.  With \<open>keep_dims = True\<close> the entry of every
  reduced axis that has one becomes 1 and every other entry stays under its key.  With
  \<open>keep_dims = False\<close> the output's dictionary is the input's with each reduced axis,
  from the highest to the lowest, removed and the entries with greater keys moved one
  key down; for a single axis \<open>i\<close> the entry at \<open>k\<close> is the input's entry at \<open>k\<close>
  below \<open>i\<close> and the input's entry at \<open>k + 1\<close> from \<open>i\<close> on.  The keys are compared
  with the axis numbers as \<open>_get_axis\<close> returns them, which count the batch axis.
\<close>

lemma ReduceLayer_init_sizes:
  assumes "ReduceLayer_get_axis dm axis input_data = Inr axes"
    and "lower mode \<in> {''max'', ''sum'', ''avg'', ''mean''}"
    and "\<not> sparse input_data" and "placeholder input_data \<noteq> None"
    and "size_placeholder input_data = Some sizes" and "distinct (map fst sizes)"
  shows "\<exists>out' sizes'.
           ReduceLayer_init dm mode axis keep_dims enforce_batch_dim_axis input_data out =
             Inr out' \<and>
           size_placeholder out' = Some sizes' \<and>
           (keep_dims \<longrightarrow>
              (\<forall>k. map_of sizes' k =
                     (if k \<in> set axes \<and> map_of sizes k \<noteq> None then Some (PyInt 1)
                      else map_of sizes k))) \<and>
           (\<not> keep_dims \<longrightarrow>
              map_of sizes' =
                foldl (\<lambda>m i. remove_and_renumber i m) (map_of sizes) (rev (sort axes)) \<and>
              (\<forall>i. axes = [i] \<longrightarrow>
                 (\<forall>k. map_of sizes' k =
                        (if k < i then map_of sizes k else map_of sizes (k + 1)))))"
proof -
  obtain x0 where x0: "placeholder input_data = Some x0" using assms(4) by auto
  let ?sizes' = "y_dyn_sizes keep_dims axes sizes"
  have init: "\<exists>out'. ReduceLayer_init dm mode axis keep_dims enforce_batch_dim_axis
                        input_data out = Inr out' \<and>
                      size_placeholder out' = Some ?sizes'"
    using assms(1,2,3,5) x0 by (simp add: ReduceLayer_init_def Let_def)
  have keep: "keep_dims \<longrightarrow>
              (\<forall>k. map_of ?sizes' k =
                     (if k \<in> set axes \<and> map_of sizes k \<noteq> None then Some (PyInt 1)
                      else map_of sizes k))"
    by (simp add: y_dyn_sizes_def keep_axes_spec)
  have drop: "\<not> keep_dims \<longrightarrow>
              map_of ?sizes' =
                foldl (\<lambda>m i. remove_and_renumber i m) (map_of sizes) (rev (sort axes))"
    using drop_axes_spec [OF assms(6), of "rev (sort axes)"] by (simp add: y_dyn_sizes_def)
  have one: "\<not> keep_dims \<longrightarrow>
             (\<forall>i. axes = [i] \<longrightarrow>
                 (\<forall>k. map_of ?sizes' k =
                        (if k < i then map_of sizes k else map_of sizes (k + 1))))"
    using drop by (auto simp: remove_and_renumber_def)
  from init keep drop one show ?thesis by blast
qed

text \<open>
  C3.  The keys of the dictionary of lengths number the axes without the batch axis (the
  lengths of the time axis are under \<open>time_dim_axis_excluding_batch\<close>), and the reduce
  layer compares them with the numbers of the reduced axes, which count the batch axis.
  The input here is batch-major with the time axis at 1, a feature axis of width 5 and
  the lengths of the time axis under key 0.  A reduce over the time axis, given as 1, as
  -2 or as \<^verbatim>\<open>"spatial"\<close>, leaves the lengths of the time axis in the output's
  dictionary under key 0, where the claim has them removed; with \<open>keep_dims\<close> the entry
  is not set to 1 either.  A reduce over \<^verbatim>\<open>"b"\<close>, the batch axis, removes the lengths of
  the time axis, which is not reduced.
\<close>

theorem reduce_layer_keeps_lengths_of_reduced_axis:
  "time_dim_axis (ex_data ''a'' 5 False) = Some 1 \<and>
   time_dim_axis_excluding_batch ex_dm (ex_data ''a'' 5 False) = Some 0 \<and>
   size_placeholder (ex_data ''a'' 5 False) = Some [(0, Handle ''a_len'')] \<and>
   ReduceLayer_get_axis ex_dm (AxisInt 1) (ex_data ''a'' 5 False) = Inr [1] \<and>
   ReduceLayer_get_axis ex_dm (AxisInt (- 2)) (ex_data ''a'' 5 False) = Inr [1] \<and>
   ReduceLayer_get_axis ex_dm (AxisStr ''spatial'') (ex_data ''a'' 5 False) = Inr [1] \<and>
   ReduceLayer_get_axis ex_dm (AxisStr ''b'') (ex_data ''a'' 5 False) = Inr [0] \<and>
   map_sum id size_placeholder
     (ReduceLayer_init ex_dm ''sum'' (AxisInt 1) False 0
        (ex_data ''a'' 5 False) (ex_data ''out'' 5 False)) =
     Inr (Some [(0, Handle ''a_len'')]) \<and>
   map_sum id size_placeholder
     (ReduceLayer_init ex_dm ''sum'' (AxisInt (- 2)) False 0
        (ex_data ''a'' 5 False) (ex_data ''out'' 5 False)) =
     Inr (Some [(0, Handle ''a_len'')]) \<and>
   map_sum id size_placeholder
     (ReduceLayer_init ex_dm ''sum'' (AxisStr ''spatial'') False 0
        (ex_data ''a'' 5 False) (ex_data ''out'' 5 False)) =
     Inr (Some [(0, Handle ''a_len'')]) \<and>
   map_sum id size_placeholder
     (ReduceLayer_init ex_dm ''sum'' (AxisInt 1) True 0
        (ex_data ''a'' 5 False) (ex_data ''out'' 5 False)) =
     Inr (Some [(0, Handle ''a_len'')]) \<and>
   map_sum id size_placeholder
     (ReduceLayer_init ex_dm ''sum'' (AxisStr ''b'') False 0
        (ex_data ''a'' 5 False) (ex_data ''out'' 5 False)) =
     Inr (Some [])"
proof -
  let ?inp = "ex_data ''a'' 5 False"
  have lw: "lower ''sum'' = ''sum''" "lower ''spatial'' = ''spatial''" "lower ''b'' = ''b''"
    by (simp_all add: lower_def)
  have n: "batch_ndim ex_dm ?inp = 3" by (simp add: ex_dm_def ex_data_def)
  have a1: "ReduceLayer_get_axis ex_dm (AxisInt 1) ?inp = Inr [1]"
    by (simp add: ReduceLayer_get_axis_def normalize_axes_def n)
  have a2: "ReduceLayer_get_axis ex_dm (AxisInt (- 2)) ?inp = Inr [1]"
    by (simp add: ReduceLayer_get_axis_def normalize_axes_def n)
  have a3: "ReduceLayer_get_axis ex_dm (AxisStr ''spatial'') ?inp = Inr [1]"
    by (simp add: ReduceLayer_get_axis_def normalize_axes_def n lw list_remove_def
          and_then_def ex_dm_def ex_data_def)
  have a4: "ReduceLayer_get_axis ex_dm (AxisStr ''b'') ?inp = Inr [0]"
    by (simp add: ReduceLayer_get_axis_def normalize_axes_def n lw)
  have d: "size_placeholder ?inp = Some [(0, Handle ''a_len'')]" "\<not> sparse ?inp"
    "placeholder ?inp = Some (Handle ''a'')" "time_dim_axis ?inp = Some 1"
    by (simp_all add: ex_data_def)
  have t: "time_dim_axis_excluding_batch ex_dm ?inp = Some 0"
    by (simp add: time_dim_axis_excluding_batch_def ex_dm_def ex_data_def)
  have y1: "y_dyn_sizes False [1] [(0, Handle ''a_len'')] = [(0, Handle ''a_len'')]"
    by (simp add: y_dyn_sizes_def drop_axis_def dict_of_items_def)
  have y2: "y_dyn_sizes True [1] [(0, Handle ''a_len'')] = [(0, Handle ''a_len'')]"
    by (simp add: y_dyn_sizes_def keep_axis_def)
  have y3: "y_dyn_sizes False [0] [(0, Handle ''a_len'')] = []"
    by (simp add: y_dyn_sizes_def drop_axis_def dict_of_items_def)
  show ?thesis
    by (simp add: a1 a2 a3 a4 d t y1 y2 y3 lw ReduceLayer_init_def Let_def)
qed

subsection \<open>The regularisation value\<close>

lemma py_mul_float_not_int: "py_mul (PFloat l) v \<noteq> PInt k"
  by (cases v) simp_all

lemma py_add_not_int: "\<forall>k. v \<noteq> PInt k \<Longrightarrow> py_add c v \<noteq> PInt j"
  by (cases c; cases v) simp_all

lemma weighted_not_int_zero: "\<not> is_int_zero (py_add c (py_mul (PFloat l) v))"
  unfolding is_int_zero_def
  by (rule py_add_not_int) (simp add: py_mul_float_not_int)

lemma is_int_zero_0: "is_int_zero (PInt 0)"
  by (simp add: is_int_zero_def)

lemma LayerBase_constraints_float:
  assumes "L2 self = None \<or> L2 self = Some (PFloat l)"
    and "spatial_smoothing self = PFloat s"
  shows "LayerBase_get_constraints_value dm self out =
           (if s = 0 then
              (if L2 self = None \<or> l = 0 then Inr None
               else Inr (Some (py_add (PInt 0) (py_mul (PFloat l) (get_params_l2_norm self)))))
            else
              (case get_output_spatial_smoothing_energy dm out of
                 Inl err \<Rightarrow> Inl err
               | Inr e \<Rightarrow>
                   Inr (Some (py_add (if L2 self = None \<or> l = 0 then PInt 0
                                      else py_add (PInt 0)
                                             (py_mul (PFloat l) (get_params_l2_norm self)))
                                     (py_mul (PFloat s) e)))))"
proof (cases "L2 self")
  case None
  show ?thesis
  proof (cases "s = 0")
    case True
    with None assms(2) show ?thesis
      by (simp add: LayerBase_get_constraints_value_def and_then_def is_int_zero_0)
  next
    case False
    with None assms(2) show ?thesis
      by (cases "get_output_spatial_smoothing_energy dm out")
         (simp_all add: LayerBase_get_constraints_value_def and_then_def weighted_not_int_zero)
  qed
next
  case (Some v)
  with assms(1) have l2: "L2 self = Some (PFloat l)" by simp
  show ?thesis
  proof (cases "s = 0")
    case True
    with l2 assms(2) show ?thesis
      by (simp add: LayerBase_get_constraints_value_def and_then_def is_int_zero_0
            weighted_not_int_zero)
  next
    case False
    with l2 assms(2) show ?thesis
      by (cases "get_output_spatial_smoothing_energy dm out")
         (simp_all add: LayerBase_get_constraints_value_def and_then_def weighted_not_int_zero)
  qed
qed

lemma l2_norm_no_params: "params self = [] \<Longrightarrow> get_params_l2_norm self = PInt 0"
  by (simp add: get_params_l2_norm_def)

text \<open>
  C7, as the code has it.  For a layer that does not override the method, with \<open>L2\<close> a
  float or unset and \<open>spatial_smoothing\<close> a float, \<open>get_constraints_value\<close> returns
  \<open>None\<close> exactly when \<open>L2\<close> is unset or zero and \<open>spatial_smoothing\<close> is zero;
  with only \<open>L2\<close> in force it returns \<open>0 + L2 * norm\<close>, and with
  \<open>spatial_smoothing\<close> in force and an energy \<open>e\<close> it returns that sum plus
  \<open>spatial_smoothing * e\<close>.  The test is identity with the integer 0: a layer without
  parameters and with \<open>L2\<close> in force gets the float 0.0, not \<open>None\<close>.  A subnetwork
  layer returns its subnetwork's \<open>total_constraints\<close>, or \<open>None\<close> when that is the
  integer 0.
\<close>

theorem constraints_value_none_iff_unconfigured:
  assumes "layer_kind self \<noteq> SubnetworkLayer"
    and "L2 self = None \<or> L2 self = Some (PFloat l)"
    and "spatial_smoothing self = PFloat s"
  shows "(get_constraints_value tc dm self out = Inr None) =
           ((L2 self = None \<or> l = 0) \<and> s = 0) \<and>
         (L2 self = Some (PFloat l) \<and> l \<noteq> 0 \<and> s = 0 \<longrightarrow>
            get_constraints_value tc dm self out =
              Inr (Some (py_add (PInt 0) (py_mul (PFloat l) (get_params_l2_norm self)))) \<and>
            (params self = [] \<longrightarrow>
               get_constraints_value tc dm self out = Inr (Some (PFloat 0)))) \<and>
         (s \<noteq> 0 \<and> get_output_spatial_smoothing_energy dm out = Inr e \<longrightarrow>
            get_constraints_value tc dm self out =
              Inr (Some (py_add (if L2 self = None \<or> l = 0 then PInt 0
                                 else py_add (PInt 0)
                                        (py_mul (PFloat l) (get_params_l2_norm self)))
                                (py_mul (PFloat s) e)))) \<and>
         (layer_kind sub = SubnetworkLayer \<and> subnetwork sub = Some n \<longrightarrow>
            get_constraints_value tc dm sub out' =
              Inr (if tc n = PInt 0 then None else Some (tc n)))"
proof (intro conjI)
  have gc: "get_constraints_value tc dm self out = LayerBase_get_constraints_value dm self out"
    using assms(1) by (simp add: get_constraints_value_def)
  note eq = LayerBase_constraints_float [OF assms(2,3), of dm out]
  show "(get_constraints_value tc dm self out = Inr None) =
           ((L2 self = None \<or> l = 0) \<and> s = 0)"
    unfolding gc eq
    by (cases "get_output_spatial_smoothing_energy dm out") auto
  show "L2 self = Some (PFloat l) \<and> l \<noteq> 0 \<and> s = 0 \<longrightarrow>
            get_constraints_value tc dm self out =
              Inr (Some (py_add (PInt 0) (py_mul (PFloat l) (get_params_l2_norm self)))) \<and>
            (params self = [] \<longrightarrow>
               get_constraints_value tc dm self out = Inr (Some (PFloat 0)))"
    unfolding gc eq by (auto simp: l2_norm_no_params)
  show "s \<noteq> 0 \<and> get_output_spatial_smoothing_energy dm out = Inr e \<longrightarrow>
            get_constraints_value tc dm self out =
              Inr (Some (py_add (if L2 self = None \<or> l = 0 then PInt 0
                                 else py_add (PInt 0)
                                        (py_mul (PFloat l) (get_params_l2_norm self)))
                                (py_mul (PFloat s) e)))"
    unfolding gc eq by auto
  show "layer_kind sub = SubnetworkLayer \<and> subnetwork sub = Some n \<longrightarrow>
            get_constraints_value tc dm sub out' =
              Inr (if tc n = PInt 0 then None else Some (tc n))"
    by (simp add: get_constraints_value_def SubnetworkLayer_get_constraints_value_def
          is_int_zero_def Let_def)
qed

theorem constraints_value_none_iff_unconfigured_witness:
  "get_constraints_value (\<lambda>n. PInt 0) ex_dm (ex_layer ''hidden'' None None)
     (ex_data ''out'' 5 False) = Inr None \<and>
   get_constraints_value (\<lambda>n. PInt 0) ex_dm ex_l2_layer (ex_data ''out'' 5 False) =
     Inr (Some (PFloat 0)) \<and>
   get_constraints_value (\<lambda>n. PFloat 0) ex_dm ex_subnet_layer (ex_data ''out'' 5 False) =
     Inr (Some (PFloat 0))"
proof -
  let ?a = "ex_layer ''hidden'' None None"
  have a: "layer_kind ?a \<noteq> SubnetworkLayer" "L2 ?a = None \<or> L2 ?a = Some (PFloat 0)"
    "spatial_smoothing ?a = PFloat 0"
    by (simp_all add: ex_layer_def)
  have b: "layer_kind ex_l2_layer \<noteq> SubnetworkLayer"
    "L2 ex_l2_layer = None \<or> L2 ex_l2_layer = Some (PFloat (1/100))"
    "spatial_smoothing ex_l2_layer = PFloat 0" "params ex_l2_layer = []"
    "L2 ex_l2_layer = Some (PFloat (1/100))"
    by (simp_all add: ex_l2_layer_def ex_layer_def)
  have c: "layer_kind ex_subnet_layer = SubnetworkLayer" "subnetwork ex_subnet_layer = Some 1"
    by (simp_all add: ex_subnet_layer_def ex_layer_def)
  from constraints_value_none_iff_unconfigured
         [OF a, of "\<lambda>n. PInt 0" ex_dm "ex_data ''out'' 5 False"]
  have A: "get_constraints_value (\<lambda>n. PInt 0) ex_dm ?a (ex_data ''out'' 5 False) = Inr None"
    by simp
  from constraints_value_none_iff_unconfigured
         [OF b(1,2,3), of "\<lambda>n. PInt 0" ex_dm "ex_data ''out'' 5 False"] b
  have B: "get_constraints_value (\<lambda>n. PInt 0) ex_dm ex_l2_layer (ex_data ''out'' 5 False) =
             Inr (Some (PFloat 0))"
    by (simp add: l2_norm_no_params)
  from constraints_value_none_iff_unconfigured
         [OF a, of "\<lambda>n. PFloat 0" ex_dm "ex_data ''out'' 5 False" undefined ex_subnet_layer 1
            "ex_data ''out'' 5 False"] c
  have C: "get_constraints_value (\<lambda>n. PFloat 0) ex_dm ex_subnet_layer (ex_data ''out'' 5 False) =
             Inr (Some (PFloat 0))"
    by simp
  from A B C show ?thesis by blast
qed

text \<open>
  The claim as stated, for every layer, fails at a subnetwork layer: with \<open>L2\<close> set
  to 0.01 on the layer and a subnetwork whose \<open>total_constraints\<close> is the integer 0,
  the override returns \<open>None\<close>.
\<close>

theorem constraints_value_subnetwork_counterexample:
  "get_constraints_value (\<lambda>n. PInt 0) ex_dm ex_subnet_layer (ex_data ''out'' 5 False) =
     Inr None \<and>
   L2 ex_subnet_layer = Some (PFloat (1/100)) \<and> L2 ex_subnet_layer \<noteq> None"
  by (simp add: get_constraints_value_def SubnetworkLayer_get_constraints_value_def
        is_int_zero_def ex_subnet_layer_def ex_layer_def)

subsection \<open>The default target\<close>










end
